theory Spec2Isabelle
  imports Main "HOL-Library.AList"
begin

section \<open>Exceptions of the library module\<close>

text \<open>
  Every exception the module \<^verbatim>\<open>ambry/library/__init__.py\<close> raises, re-raises or
  lets through is a value; a function that can raise returns \<open>error + 'a\<close>.
\<close>

datatype error =
    AttributeError
  | UnboundLocalError
  | S3ResponseError
  | SqliteDatabaseError
  | OperationalError
  | NotObjectNumberError
  | ConfigurationError
  | NotFoundError
  | ConflictError
  | NotABundle
  | NoResultFound
  | MultipleResultsFound
  | Exception

section \<open>The two regular expressions of \<^verbatim>\<open>sync_remotes\<close>\<close>

text \<open>
  \<^verbatim>\<open>\d\<close> on a Python 2 pattern without flags is the class \<^verbatim>\<open>[0-9]\<close>.
\<close>

definition is_digit :: "char \<Rightarrow> bool" where
  "is_digit c = (c \<in> set ''0123456789'')"

text \<open>
  \<^verbatim>\<open>\d+\<close> followed by a literal that is not a digit: the greedy match takes the
  whole run of digits, and giving digits back never helps. The result is the text after
  the run.
\<close>

definition digits1 :: "string \<Rightarrow> string option" where
  "digits1 s = (if takeWhile is_digit s = [] then None else Some (dropWhile is_digit s))"

definition lit :: "string \<Rightarrow> string \<Rightarrow> string option" where
  "lit p s = (if take (length p) s = p then Some (drop (length p) s) else None)"

text \<open>
  The pattern \<^verbatim>\<open>-\d+\.\d+\.\d+\.db\<close> tried at the start of \<open>s\<close>; the result is the
  text after the match.
\<close>

definition match_version :: "string \<Rightarrow> string option" where
  "match_version s =
     Option.bind (lit ''-'' s) (\<lambda>s1.
     Option.bind (digits1 s1) (\<lambda>s2.
     Option.bind (lit ''.'' s2) (\<lambda>s3.
     Option.bind (digits1 s3) (\<lambda>s4.
     Option.bind (lit ''.'' s4) (\<lambda>s5.
     Option.bind (digits1 s5) (\<lambda>s6.
     lit ''.db'' s6))))))"

lemma lit_shorter: "lit p s = Some r \<Longrightarrow> length r \<le> length s"
  by (auto simp: lit_def split: if_splits)

lemma lit_nonempty_shorter: "p \<noteq> [] \<Longrightarrow> lit p s = Some r \<Longrightarrow> length r < length s"
  by (cases s) (auto simp: lit_def split: if_splits)

lemma digits1_shorter: "digits1 s = Some r \<Longrightarrow> length r \<le> length s"
  by (auto simp: digits1_def length_dropWhile_le split: if_splits)

lemma match_version_shorter:
  assumes "match_version s = Some r"
  shows "length r < length s"
proof -
  from assms obtain s1 s2 s3 s4 s5 s6 where
    a: "lit ''-'' s = Some s1" "digits1 s1 = Some s2" "lit ''.'' s2 = Some s3"
       "digits1 s3 = Some s4" "lit ''.'' s4 = Some s5" "digits1 s5 = Some s6"
       "lit ''.db'' s6 = Some r"
    by (auto simp: match_version_def split: Option.bind_splits)
  have "length s1 < length s" using a(1) by (intro lit_nonempty_shorter) auto
  moreover have "length s2 \<le> length s1" using a(2) by (rule digits1_shorter)
  moreover have "length s3 \<le> length s2" using a(3) by (rule lit_shorter)
  moreover have "length s4 \<le> length s3" using a(4) by (rule digits1_shorter)
  moreover have "length s5 \<le> length s4" using a(5) by (rule lit_shorter)
  moreover have "length s6 \<le> length s5" using a(6) by (rule digits1_shorter)
  moreover have "length r \<le> length s6" using a(7) by (rule lit_shorter)
  ultimately show ?thesis by linarith
qed

text \<open>
  \<^verbatim>\<open>re.sub(r'-\d+\.\d+\.\d+\.db', '', cache_key)\<close>: scan from the left; where the
  pattern matches, drop the match and go on after it; elsewhere keep the character.
\<close>

function sub_version :: "string \<Rightarrow> string" where
  "sub_version [] = []"
| "sub_version (c # cs) =
     (case match_version (c # cs) of
        Some rest \<Rightarrow> sub_version rest
      | None \<Rightarrow> c # sub_version cs)"
  by pat_completeness auto
termination
  by (relation "measure length") (auto dest: match_version_shorter)

text \<open>
  The pattern \<^verbatim>\<open>(\d+)\.db$\<close> tried at the start of \<open>s\<close>; \<^verbatim>\<open>$\<close> is the end of the
  string or the position before a final newline. The result is group 1.
\<close>

definition match_revision :: "string \<Rightarrow> string option" where
  "match_revision s =
     (let ds = takeWhile is_digit s; r = dropWhile is_digit s
      in if ds \<noteq> [] \<and> (r = ''.db'' \<or> r = ''.db'' @ [CHR 0x0A]) then Some ds else None)"

text \<open>\<^verbatim>\<open>re.search\<close>: the leftmost position where the pattern matches.\<close>

fun search_revision :: "string \<Rightarrow> string option" where
  "search_revision [] = None"
| "search_revision (c # cs) =
     (case match_revision (c # cs) of
        Some g \<Rightarrow> Some g
      | None \<Rightarrow> search_revision cs)"

text \<open>\<^verbatim>\<open>int(...)\<close> of a string of decimal digits.\<close>

definition digit_val :: "char \<Rightarrow> int" where
  "digit_val c = int (of_char c) - 48"

definition int_of_digits :: "string \<Rightarrow> int" where
  "int_of_digits ds = foldl (\<lambda>n c. 10 * n + digit_val c) 0 ds"

section \<open>Data model\<close>

text \<open>What the library reads of an identity, a partition and a bundle.\<close>

record identity =
  vid :: string
  vname :: string
  cache_key :: string
  is_bundle :: bool

text \<open>
  What the resolver returns: the identity of a dataset, with the identity of the partition
  when the reference names one, and the \<^verbatim>\<open>bundle_path\<close> that \<^verbatim>\<open>resolve\<close> sets.
\<close>

record dataset_identity = identity +
  partition :: "identity option"
  bundle_path :: "string option"

record partition_rec =
  p_identity :: identity
  p_path :: string  \<comment> \<open>\<^verbatim>\<open>partition.database.path\<close>\<close>

record db_bundle =
  b_identity :: "error + identity"
    \<comment> \<open>reading \<^verbatim>\<open>b.identity\<close> opens the file and may raise\<close>
  b_path :: string  \<comment> \<open>\<^verbatim>\<open>bundle.database.path\<close>\<close>
  partitions :: "partition_rec list"

text \<open>
  A row of the files table, the ledger. \<^verbatim>\<open>Files.TYPE.BUNDLE\<close> is
  \<^verbatim>\<open>Dataset.LOCATION.LIBRARY\<close> and \<^verbatim>\<open>Files.TYPE.PARTITION\<close> is
  \<^verbatim>\<open>Dataset.LOCATION.PARTITION\<close>, as \<^verbatim>\<open>sync_library\<close> asserts.
\<close>

datatype file_type = BUNDLE | PARTITION | REMOTE | SOURCE | STORE | MANIFEST

record file_row =
  ref :: string
  ftype :: file_type
  source_url :: string
  state :: string
  path :: string

datatype log_entry =
    SyncingFrom string
  | FailedList string
  | FailedVersion string
  | SkipOldVersion string
  | RemoteHas string string
  | RemoteSync string string
  | FailedGet string
  | FailedFetch string
  | NotValidBundle string
  | FailedPut string
  | FailedLoad string
  | RebuildingFrom string
  | FailedOpen string
  | FailedProcess string string
  | Installing string
  | InstalledPartition string
  | FailedSync string
  | FailedInstall string
  | FailedFor string
  | FailedSearchIndex

record remote =
  repo_id :: string
  listing :: "error + string list"
    \<comment> \<open>\<^verbatim>\<open>remote.list().keys()\<close>, in the order the dictionary yields them, or the
       exception \<^verbatim>\<open>remote.list()\<close> raises\<close>
  held :: "string list"  \<comment> \<open>the keys the remote stores, for \<^verbatim>\<open>has\<close> and \<^verbatim>\<open>put\<close>\<close>
  puts :: "(string \<times> string) list"  \<comment> \<open>the calls of \<^verbatim>\<open>put\<close>: path and key\<close>
  has_store_list :: bool  \<comment> \<open>whether the cache class has a \<^verbatim>\<open>store_list\<close> method\<close>
  store_lists :: nat  \<comment> \<open>the calls of \<^verbatim>\<open>store_list\<close>\<close>

text \<open>
  The library and what its collaborators hold: the ledger rows, the datasets installed in
  the library database, the keys of the local cache and of the tiers upstream of it, the
  search index, the invalidations sent to the documentation cache, the log, the number
  of calls of \<^verbatim>\<open>database.commit()\<close> the module makes, and the calls of the callback
  \<^verbatim>\<open>cb\<close> of \<^verbatim>\<open>push\<close>.
\<close>

datatype cb_call = CbHas string | CbPushingTo string string | CbPushed string

text \<open>
  What a writer of the search index is asked to do: \<^verbatim>\<open>delete_by_term('vid', vid)\<close>, and
  \<^verbatim>\<open>add_document\<close> of a document of a type (\<^verbatim>\<open>'b'\<close> or \<^verbatim>\<open>'p'\<close>) and a vid.
\<close>

datatype writer_op = DeleteByTerm string | AddDocument string string

record library =
  files :: "file_row list"
  datasets :: "string list"
  cache :: "string list"
  cache_upstreams :: "string list list"
  cache_repo_id :: string
  cache_dir :: string
  source_dir :: "string option"
  has_doc_cache :: bool
  search_docs :: "(string \<times> string) list"
  search_opened :: bool
  search_writer :: "writer_op list option"
  all_datasets :: "string list option"
  all_partitions :: "string list option"
  marked :: "(string option \<times> string option) list"
  logged :: "log_entry list"
  commits :: nat
  called_back :: "cb_call list"
  remotes :: "(string \<times> remote) list"

datatype 'a result = Raise error library | Return 'a library

text \<open>
  The collaborators whose code is not part of the module, as parameters: what the remote
  stack answers for a key, whether a path exists, what opening a bundle file gives, the
  exception \<^verbatim>\<open>database.install_bundle\<close> raises for a bundle (if any), the rows the
  \<^verbatim>\<open>installed\<close> filter of a files query keeps, the two methods of the files table
  that record a bundle file and a partition file (arguments: the bundle or partition,
  the source, \<^verbatim>\<open>commit\<close>, the state, the rows; result: the value returned and the
  rows afterwards, or the exception raised), the exception \<^verbatim>\<open>cache.put\<close> raises for a
  path and a key (if any), the exception that opening the search index raises (if any),
  the exceptions that building the search document of a bundle or of a partition raises
  (if any), the path of a cache key, the order in which a Python 2
  dictionary yields its entries, the resolver's \<^verbatim>\<open>resolve_ref_one\<close> (the locations are
  \<open>None\<close> when the argument is left out; \<^verbatim>\<open>LOCATION.LIBRARY\<close> is \<open>BUNDLE\<close>), the
  \<^verbatim>\<open>source_path\<close> of the source tree, the \<^verbatim>\<open>size\<close> entry of \<^verbatim>\<open>identity.to_meta\<close>, and
  the exception \<^verbatim>\<open>database.remove_bundle\<close> raises for a bundle (if any).
\<close>

record env =
  remote_get :: "string \<Rightarrow> error + bool"
  path_exists :: "string \<Rightarrow> bool"
  DbBundle :: "string \<Rightarrow> error + db_bundle"
  install_bundle_raises :: "db_bundle \<Rightarrow> error option"
  installed :: "file_row \<Rightarrow> bool"
  install_bundle_file ::
    "db_bundle \<Rightarrow> string \<Rightarrow> bool \<Rightarrow> string \<Rightarrow> file_row list
       \<Rightarrow> error + bool \<times> file_row list"
  install_partition_file ::
    "partition_rec \<Rightarrow> string \<Rightarrow> bool \<Rightarrow> string \<Rightarrow> file_row list
       \<Rightarrow> error + bool \<times> file_row list"
  cache_put_raises :: "string \<Rightarrow> string \<Rightarrow> error option"
  open_index_raises :: "error option"
  dataset_doc_raises :: "db_bundle \<Rightarrow> error option"
  partition_doc_raises :: "partition_rec \<Rightarrow> error option"
  cache_path :: "string \<Rightarrow> string"
  dict_order :: "(string \<times> (int \<times> string)) list \<Rightarrow> (string \<times> (int \<times> string)) list"
  resolve_ref_one ::
    "library \<Rightarrow> string \<Rightarrow> file_type list option \<Rightarrow> error + dataset_identity option"
  source_path :: "dataset_identity \<Rightarrow> error + string"
  to_meta_size :: "identity \<Rightarrow> string \<Rightarrow> nat option"
  remove_bundle_raises :: "db_bundle \<Rightarrow> error option"

definition info :: "log_entry \<Rightarrow> library \<Rightarrow> library" where
  "info e st = st\<lparr>logged := logged st @ [e]\<rparr>"

definition log_error :: "log_entry \<Rightarrow> library \<Rightarrow> library" where
  "log_error e st = st\<lparr>logged := logged st @ [e]\<rparr>"

definition mark_updated :: "string option \<Rightarrow> string option \<Rightarrow> library \<Rightarrow> library" where
  "mark_updated v k st = st\<lparr>marked := marked st @ [(v, k)]\<rparr>"

definition commit :: "library \<Rightarrow> library" where
  "commit st = st\<lparr>commits := Suc (commits st)\<rparr>"

section \<open>The last-version filter of \<^verbatim>\<open>sync_remotes\<close>\<close>

type_synonym last_keys_t = "(string \<times> (int \<times> string)) list"

text \<open>
  \<^verbatim>\<open>last_keys[nv_key]\<close> on \<^verbatim>\<open>defaultdict(lambda: [0, ''])\<close>: reading a key that is
  absent stores the default under it.
\<close>

definition getitem :: "last_keys_t \<Rightarrow> string \<Rightarrow> last_keys_t \<times> (int \<times> string)" where
  "getitem lk k =
     (case map_of lk k of
        Some v \<Rightarrow> (lk, v)
      | None \<Rightarrow> (lk @ [(k, (0, []))], (0, [])))"

text \<open>
  One turn of the loop over \<^verbatim>\<open>remote_list\<close> that fills \<^verbatim>\<open>last_keys\<close>. The local
  variable \<^verbatim>\<open>version\<close> is \<open>None\<close> while it is unbound; when the search fails the
  handler only logs, and the comparison reads whatever \<^verbatim>\<open>version\<close> held before.
\<close>

definition scan_key ::
  "string \<Rightarrow> int option \<Rightarrow> last_keys_t \<Rightarrow> library \<Rightarrow> (int option \<times> last_keys_t) result" where
  "scan_key ck version lk st =
     (let nv_key = sub_version ck;
          version' = (case search_revision ck of
                        Some g \<Rightarrow> Some (int_of_digits g)
                      | None \<Rightarrow> version);
          st' = (case search_revision ck of
                   Some g \<Rightarrow> st
                 | None \<Rightarrow> log_error (FailedVersion ck) st)
      in case version' of
           None \<Rightarrow> Raise UnboundLocalError st'
         | Some v \<Rightarrow>
             (let (lk1, cur) = getitem lk nv_key
              in Return (version',
                         if v > fst cur then AList.update nv_key (v, ck) lk1 else lk1) st'))"

fun scan_keys ::
  "string list \<Rightarrow> int option \<Rightarrow> last_keys_t \<Rightarrow> library \<Rightarrow> (int option \<times> last_keys_t) result" where
  "scan_keys [] version lk st = Return (version, lk) st"
| "scan_keys (ck # cks) version lk st =
     (case scan_key ck version lk st of
        Raise e st' \<Rightarrow> Raise e st'
      | Return (version', lk') st' \<Rightarrow> scan_keys cks version' lk' st')"

text \<open>
  The \<^verbatim>\<open>if last_only:\<close> block: \<^verbatim>\<open>use_only\<close> is the list of the keys stored in
  \<^verbatim>\<open>last_keys\<close>; the loop that builds it binds \<^verbatim>\<open>version\<close> once more, to the
  version of the entry the dictionary yields last.
\<close>

definition last_only_keys ::
  "env \<Rightarrow> bool \<Rightarrow> string list \<Rightarrow> int option \<Rightarrow> library \<Rightarrow> (int option \<times> string list option) result" where
  "last_only_keys env last_only remote_list version st =
     (if last_only then
        (case scan_keys remote_list version [] st of
           Raise e st' \<Rightarrow> Raise e st'
         | Return (version', lk) st' \<Rightarrow>
             (let vals = map snd (dict_order env lk)
              in Return (if vals = [] then version' else Some (fst (last vals)),
                         Some (map snd vals)) st'))
      else Return (version, None) st)"

section \<open>Queries on the files table\<close>

text \<open>
  Modelled from the spec: the class \<^verbatim>\<open>Files\<close> is not among the sources. The ledger is
  ``queryable by state, by type, by ref'' and by source; each filter narrows the rows.
  \<^verbatim>\<open>one\<close> wants exactly one row; \<^verbatim>\<open>one_maybe\<close> gives \<open>None\<close> where \<^verbatim>\<open>one\<close> finds no
  row; \<^verbatim>\<open>delete\<close> removes the rows of the query.
\<close>

definition q_ref :: "string \<Rightarrow> file_row list \<Rightarrow> file_row list" where
  "q_ref v rows = filter (\<lambda>f. ref f = v) rows"

definition q_type :: "file_type list \<Rightarrow> file_row list \<Rightarrow> file_row list" where
  "q_type ts rows = filter (\<lambda>f. ftype f \<in> set ts) rows"

definition q_source_url :: "string \<Rightarrow> file_row list \<Rightarrow> file_row list" where
  "q_source_url u rows = filter (\<lambda>f. source_url f = u) rows"

definition q_state :: "string \<Rightarrow> file_row list \<Rightarrow> file_row list" where
  "q_state s rows = filter (\<lambda>f. state f = s) rows"

definition q_installed :: "env \<Rightarrow> file_row list \<Rightarrow> file_row list" where
  "q_installed env rows = filter (installed env) rows"

definition one :: "file_row list \<Rightarrow> error + file_row" where
  "one rows = (case rows of [] \<Rightarrow> Inl NoResultFound | [r] \<Rightarrow> Inr r | _ \<Rightarrow> Inl MultipleResultsFound)"

definition one_maybe :: "file_row list \<Rightarrow> error + file_row option" where
  "one_maybe rows =
     (case one rows of
        Inl e \<Rightarrow> (if e = NoResultFound then Inr None else Inl e)
      | Inr r \<Rightarrow> Inr (Some r))"

definition q_delete :: "(file_row list \<Rightarrow> file_row list) \<Rightarrow> file_row list \<Rightarrow> file_row list" where
  "q_delete q rows = filter (\<lambda>f. f \<notin> set (q rows)) rows"

section \<open>The local cache\<close>

text \<open>
  Modelled from the spec: the cache classes are not among the sources. \<^verbatim>\<open>has\<close> ``checks
  local tier only'', \<^verbatim>\<open>put\<close> ``copies into the local tier'', \<^verbatim>\<open>remove\<close> ``removes from
  local tier; if propagate, also attempts removal from every remote tier'' (here the
  tiers upstream of the cache), and the read-through \<^verbatim>\<open>get\<close> of \<^verbatim>\<open>AltReadCache\<close>
  ``checks local tier; on miss, queries remote tiers'' and ``copies the artifact into
  the local tier before returning''.
\<close>

definition cache_has :: "library \<Rightarrow> string \<Rightarrow> bool" where
  "cache_has st k = (k \<in> set (cache st))"

definition cache_put :: "string \<Rightarrow> library \<Rightarrow> library" where
  "cache_put k st = st\<lparr>cache := cache st @ [k]\<rparr>"

definition cache_remove :: "string \<Rightarrow> bool \<Rightarrow> library \<Rightarrow> library" where
  "cache_remove k propagate st =
     (let st1 = st\<lparr>cache := removeAll k (cache st)\<rparr>
      in if propagate then st1\<lparr>cache_upstreams := map (removeAll k) (cache_upstreams st1)\<rparr>
         else st1)"

definition arc_get :: "env \<Rightarrow> string \<Rightarrow> library \<Rightarrow> (string option) result" where
  "arc_get env k st =
     (if cache_has st k then Return (Some (cache_path env k)) st
      else (case remote_get env k of
              Inl e \<Rightarrow> Raise e st
            | Inr hit \<Rightarrow>
                if hit then Return (Some (cache_path env k)) (cache_put k st)
                else Return None st))"

section \<open>Sequencing\<close>

text \<open>An exception ends what follows it; the state it was raised in is kept.\<close>

definition then_do :: "'a result \<Rightarrow> ('a \<Rightarrow> library \<Rightarrow> 'b result) \<Rightarrow> 'b result" where
  "then_do r f = (case r of Raise e st \<Rightarrow> Raise e st | Return x st \<Rightarrow> f x st)"

section \<open>The search index\<close>

text \<open>
  The class \<^verbatim>\<open>Search\<close> of \<^verbatim>\<open>search.py\<close>, as far as \<^verbatim>\<open>put_bundle\<close> drives it. The
  library state holds the documents of the index (type and vid), whether the index has
  been opened, the open writer with the operations it has buffered, and the two memoized
  sets \<^verbatim>\<open>all_datasets\<close> and \<^verbatim>\<open>all_partitions\<close> (\<open>None\<close> until first read). The index
  and its writer are Whoosh objects: opening the index may fail, building a document
  reads the bundle or the partition and may fail, and a commit applies the buffered
  operations in order.
\<close>

text \<open>
  The property \<^verbatim>\<open>dataset_index\<close>: the first read opens the index through
  \<^verbatim>\<open>get_or_new_index\<close>, which logs and raises again whatever the opening raises.
\<close>

definition dataset_index :: "env \<Rightarrow> library \<Rightarrow> unit result" where
  "dataset_index env st =
     (if search_opened st then Return () st
      else (case open_index_raises env of
              Some e \<Rightarrow> Raise e (log_error FailedSearchIndex st)
            | None \<Rightarrow> Return () (st\<lparr>search_opened := True\<rparr>)))"

text \<open>The memoized properties \<^verbatim>\<open>all_datasets\<close> and \<^verbatim>\<open>all_partitions\<close>.\<close>

definition get_all_datasets :: "env \<Rightarrow> library \<Rightarrow> (string list) result" where
  "get_all_datasets env st =
     (case all_datasets st of
        Some s \<Rightarrow> Return s st
      | None \<Rightarrow>
          then_do (dataset_index env st) (\<lambda>u st1.
            (let s = remdups (map snd (filter (\<lambda>d. fst d = ''b'') (search_docs st1)))
             in Return s (st1\<lparr>all_datasets := Some s\<rparr>))))"

definition get_all_partitions :: "env \<Rightarrow> library \<Rightarrow> (string list) result" where
  "get_all_partitions env st =
     (case all_partitions st of
        Some s \<Rightarrow> Return s st
      | None \<Rightarrow>
          then_do (dataset_index env st) (\<lambda>u st1.
            (let s = remdups (map snd (filter (\<lambda>d. fst d = ''p'') (search_docs st1)))
             in Return s (st1\<lparr>all_partitions := Some s\<rparr>))))"

text \<open>The property \<^verbatim>\<open>dataset_writer\<close>, and an operation handed to the writer.\<close>

definition dataset_writer :: "env \<Rightarrow> library \<Rightarrow> unit result" where
  "dataset_writer env st =
     (if search_writer st \<noteq> None then Return () st
      else then_do (dataset_index env st) (\<lambda>u st1. Return () (st1\<lparr>search_writer := Some []\<rparr>)))"

definition writer_do :: "env \<Rightarrow> writer_op \<Rightarrow> library \<Rightarrow> unit result" where
  "writer_do env w st =
     then_do (dataset_writer env st) (\<lambda>u st1.
       Return () (st1\<lparr>search_writer := map_option (\<lambda>ops. ops @ [w]) (search_writer st1)\<rparr>))"

text \<open>\<^verbatim>\<open>index_dataset(bundle, force)\<close>.\<close>

definition index_dataset :: "env \<Rightarrow> db_bundle \<Rightarrow> bool \<Rightarrow> library \<Rightarrow> unit result" where
  "index_dataset env b force st =
     (case b_identity b of
        Inl e \<Rightarrow> Raise e st
      | Inr ident \<Rightarrow>
          then_do (get_all_datasets env st) (\<lambda>known st1.
            if vid ident \<in> set known \<and> \<not> force then Return () st1
            else (case dataset_doc_raises env b of
                    Some e \<Rightarrow> Raise e st1
                  | None \<Rightarrow>
                      then_do (if force then writer_do env (DeleteByTerm (vid ident)) st1
                               else Return () st1) (\<lambda>u st2.
                      then_do (writer_do env (AddDocument ''b'' (vid ident)) st2) (\<lambda>u st3.
                        Return () (st3\<lparr>all_datasets :=
                                          map_option (List.insert (vid ident)) (all_datasets st3)\<rparr>))))))"

text \<open>\<^verbatim>\<open>index_partition(p, force)\<close>; it never deletes.\<close>

definition index_partition :: "env \<Rightarrow> partition_rec \<Rightarrow> bool \<Rightarrow> library \<Rightarrow> unit result" where
  "index_partition env p force st =
     then_do (get_all_partitions env st) (\<lambda>known st1.
       if vid (p_identity p) \<in> set known \<and> \<not> force then Return () st1
       else (case partition_doc_raises env p of
               Some e \<Rightarrow> Raise e st1
             | None \<Rightarrow>
                 then_do (writer_do env (AddDocument ''p'' (vid (p_identity p))) st1) (\<lambda>u st2.
                   Return () (st2\<lparr>all_partitions :=
                                     map_option (List.insert (vid (p_identity p)))
                                       (all_partitions st2)\<rparr>))))"

fun index_partitions :: "env \<Rightarrow> partition_rec list \<Rightarrow> library \<Rightarrow> unit result" where
  "index_partitions env [] st = Return () st"
| "index_partitions env (p # ps) st =
     then_do (index_partition env p True st) (\<lambda>u st'. index_partitions env ps st')"

text \<open>\<^verbatim>\<open>commit()\<close>: an open writer commits what it has buffered and is dropped.\<close>

definition apply_op :: "(string \<times> string) list \<Rightarrow> writer_op \<Rightarrow> (string \<times> string) list" where
  "apply_op docs w =
     (case w of
        DeleteByTerm v \<Rightarrow> filter (\<lambda>d. snd d \<noteq> v) docs
      | AddDocument t v \<Rightarrow> docs @ [(t, v)])"

definition search_commit :: "library \<Rightarrow> library" where
  "search_commit st =
     (case search_writer st of
        None \<Rightarrow> st
      | Some ops \<Rightarrow> st\<lparr>search_docs := foldl apply_op (search_docs st) ops,
                        search_writer := None\<rparr>)"

text \<open>The block \<^verbatim>\<open>if self._doc_cache:\<close> of \<^verbatim>\<open>put_bundle\<close>.\<close>

definition index_bundle :: "env \<Rightarrow> db_bundle \<Rightarrow> library \<Rightarrow> unit result" where
  "index_bundle env b st =
     then_do (index_dataset env b True st) (\<lambda>u st1.
     then_do (index_partitions env (partitions b) st1) (\<lambda>u st2.
       Return () (search_commit st2)))"

section \<open>Storing\<close>

text \<open>
  Modelled from the spec: the database and the cache classes are not among the sources.
  \<^verbatim>\<open>installBundle(record)\<close> enters the dataset in the catalog, and \<^verbatim>\<open>put\<close> ``copies into
  the local tier''; either may raise instead. The two methods of the files table give
  the rows afterwards and the value they return, or the exception they raise.
\<close>

definition install_bundle :: "env \<Rightarrow> db_bundle \<Rightarrow> library \<Rightarrow> unit result" where
  "install_bundle env b st =
     (case install_bundle_raises env b of
        Some e \<Rightarrow> Raise e st
      | None \<Rightarrow>
          (case b_identity b of
             Inl e \<Rightarrow> Raise e st
           | Inr ident \<Rightarrow> Return () (st\<lparr>datasets := datasets st @ [vid ident]\<rparr>)))"

definition cache_put_file :: "env \<Rightarrow> string \<Rightarrow> string \<Rightarrow> library \<Rightarrow> unit result" where
  "cache_put_file env p k st =
     (case cache_put_raises env p k of
        Some e \<Rightarrow> Raise e st
      | None \<Rightarrow> Return () (cache_put k st))"

definition bundle_file ::
  "env \<Rightarrow> db_bundle \<Rightarrow> string \<Rightarrow> bool \<Rightarrow> string \<Rightarrow> library \<Rightarrow> bool result" where
  "bundle_file env b source commit_flag file_state st =
     (case install_bundle_file env b source commit_flag file_state (files st) of
        Inl e \<Rightarrow> Raise e st
      | Inr (inst, rows) \<Rightarrow> Return inst (st\<lparr>files := rows\<rparr>))"

definition partition_file ::
  "env \<Rightarrow> partition_rec \<Rightarrow> string \<Rightarrow> bool \<Rightarrow> string \<Rightarrow> library \<Rightarrow> bool result" where
  "partition_file env p source commit_flag file_state st =
     (case install_partition_file env p source commit_flag file_state (files st) of
        Inl e \<Rightarrow> Raise e st
      | Inr (inst, rows) \<Rightarrow> Return inst (st\<lparr>files := rows\<rparr>))"

text \<open>\<^verbatim>\<open>put_partition(partition, source, file_state, commit)\<close>.\<close>

definition put_partition ::
  "env \<Rightarrow> partition_rec \<Rightarrow> string option \<Rightarrow> string \<Rightarrow> bool \<Rightarrow> library \<Rightarrow> (string \<times> bool) result" where
  "put_partition env p source file_state commit_flag st =
     (let source' = (case source of None \<Rightarrow> cache_repo_id st | Some s \<Rightarrow> s);
          key = cache_key (p_identity p)
      in then_do (partition_file env p source' commit_flag file_state st) (\<lambda>inst st1.
         then_do (if \<not> cache_has st1 key \<and> path_exists env (p_path p)
                  then cache_put_file env (p_path p) key st1 else Return () st1) (\<lambda>u st2.
           Return (cache_path env key, inst) st2)))"

fun put_partitions ::
  "env \<Rightarrow> partition_rec list \<Rightarrow> string \<Rightarrow> string \<Rightarrow> bool \<Rightarrow> library \<Rightarrow> unit result" where
  "put_partitions env [] source file_state commit_flag st = Return () st"
| "put_partitions env (p # ps) source file_state commit_flag st =
     (case put_partition env p (Some source) file_state commit_flag st of
        Raise e st' \<Rightarrow> Raise e st'
      | Return r st' \<Rightarrow> put_partitions env ps source file_state commit_flag st')"

text \<open>
  The test of the first line of \<^verbatim>\<open>put_bundle\<close>,
  \<^verbatim>\<open>not force and self.files.query.ref(bundle.identity.vid).type(Files.TYPE.BUNDLE).one_maybe\<close>:
  with \<^verbatim>\<open>force\<close> neither the identity nor the ledger is read.
\<close>

definition already_installed :: "db_bundle \<Rightarrow> bool \<Rightarrow> library \<Rightarrow> bool result" where
  "already_installed b force st =
     (if force then Return False st
      else (case b_identity b of
              Inl e \<Rightarrow> Raise e st
            | Inr ident \<Rightarrow>
                (case one_maybe (q_type [BUNDLE] (q_ref (vid ident) (files st))) of
                   Inl e \<Rightarrow> Raise e st
                 | Inr r \<Rightarrow> Return (r \<noteq> None) st)))"

text \<open>
  \<^verbatim>\<open>put_bundle(bundle, source, install_partitions, file_state, commit, force)\<close>. The
  first line is the early return: without \<^verbatim>\<open>force\<close>, a row of type \<^verbatim>\<open>BUNDLE\<close> for the
  bundle's vid ends the call. After it every step writes, and an exception of a later
  step leaves what the earlier ones wrote.
\<close>

definition put_bundle ::
  "env \<Rightarrow> db_bundle \<Rightarrow> string option \<Rightarrow> bool \<Rightarrow> string \<Rightarrow> bool \<Rightarrow> bool \<Rightarrow> library
     \<Rightarrow> (string \<times> bool) result" where
  "put_bundle env b source install_partitions file_state commit_flag force st =
     then_do (already_installed b force st) (\<lambda>found st0.
       if found then
         (case b_identity b of
            Inl e \<Rightarrow> Raise e st0
          | Inr ident \<Rightarrow> Return (cache_path env (cache_key ident), False) st0)
       else
         then_do (install_bundle env b st0) (\<lambda>u st1.
           (let source' = (case source of None \<Rightarrow> cache_repo_id st1 | Some s \<Rightarrow> s)
            in then_do (bundle_file env b source' commit_flag file_state st1) (\<lambda>inst st2.
               then_do (if install_partitions
                        then put_partitions env (partitions b) source' file_state commit_flag st2
                        else Return () st2) (\<lambda>u st3.
                 (case b_identity b of
                    Inl e \<Rightarrow> Raise e st3
                  | Inr ident \<Rightarrow>
                      then_do (if \<not> cache_has st3 (cache_key ident)
                               then cache_put_file env (b_path b) (cache_key ident) st3
                               else Return () st3) (\<lambda>u st4.
                      then_do (if has_doc_cache st4 then index_bundle env b st4
                               else Return () st4) (\<lambda>u st5.
                        Return (cache_path env (cache_key ident), inst)
                          (mark_updated None (Some ''library_info'')
                             (mark_updated None (Some ''bundle_index'')
                                (mark_updated (Some (vid ident)) None st5)))))))))))"

section \<open>Loading a bundle by cache key\<close>

text \<open>
  \<^verbatim>\<open>_create_bundle\<close> keeps the open bundles in a weak dictionary keyed by path; the
  bundle it returns for a path is the one \<^verbatim>\<open>DbBundle(path)\<close> gives.
\<close>

definition create_bundle :: "env \<Rightarrow> string \<Rightarrow> error + db_bundle" where
  "create_bundle env p = DbBundle env p"

text \<open>\<^verbatim>\<open>_get_bundle_by_cache_key\<close>; \<open>None\<close> is its \<^verbatim>\<open>return False\<close>.\<close>

definition get_bundle_by_cache_key ::
  "env \<Rightarrow> string \<Rightarrow> library \<Rightarrow> (db_bundle option) result" where
  "get_bundle_by_cache_key env k st =
     (case arc_get env k st of
        Raise e st' \<Rightarrow> Raise e st'
      | Return abs_path st' \<Rightarrow>
          (case abs_path of
             None \<Rightarrow> Return None st'
           | Some ap \<Rightarrow>
               if \<not> path_exists env ap then Return None st'
               else (case create_bundle env ap of
                       Inl e \<Rightarrow>
                         if e = SqliteDatabaseError \<or> e = AttributeError
                         then Raise e (log_error (FailedLoad ap) st')
                         else if e = OperationalError
                         then Raise SqliteDatabaseError (log_error (FailedLoad ap) st')
                         else Raise e st'
                     | Inr b \<Rightarrow> Return (Some b) st')))"

section \<open>\<^verbatim>\<open>sync_remotes\<close>\<close>

text \<open>Python's \<^verbatim>\<open>xs and k not in xs\<close> for a list \<open>xs\<close> that may be \<^verbatim>\<open>None\<close>.\<close>

definition and_not_in :: "string list option \<Rightarrow> string \<Rightarrow> bool" where
  "and_not_in xs k = (case xs of None \<Rightarrow> False | Some l \<Rightarrow> l \<noteq> [] \<and> k \<notin> set l)"

text \<open>
  The body of the loop over \<^verbatim>\<open>remote_list\<close> from \<^verbatim>\<open>try: b = self._get_bundle_by_cache_key\<close>
  on. \<open>Return ()\<close> is every way of going on with the next key: a \<^verbatim>\<open>continue\<close> or the
  end of the body.
\<close>

definition fetch_and_put ::
  "env \<Rightarrow> remote \<Rightarrow> string list option \<Rightarrow> string \<Rightarrow> library \<Rightarrow> unit result" where
  "fetch_and_put env r vids ck st =
     (case get_bundle_by_cache_key env ck st of
        Raise e st1 \<Rightarrow>
          if e = S3ResponseError then Return () (log_error (FailedGet ck) st1)
          else Raise e st1
      | Return None st1 \<Rightarrow> Return () (log_error (FailedFetch ck) st1)
      | Return (Some b) st1 \<Rightarrow>
          (case b_identity b of
             Inl e \<Rightarrow> Raise e st1
           | Inr ident \<Rightarrow>
               if and_not_in vids (vid ident) then Return () st1
               else (case put_bundle env b (Some (repo_id r)) False ''installed'' True False st1 of
                       Raise e st2 \<Rightarrow>
                         if e = NotABundle then Return () (log_error (NotValidBundle ck) st2)
                         else Raise e (log_error (FailedPut ck) st2)
                     | Return res st2 \<Rightarrow> Return () (commit st2))))"

text \<open>The report before the fetch: ``Remote has'' or ``Remote sync''.\<close>

definition announce :: "remote \<Rightarrow> string \<Rightarrow> library \<Rightarrow> library" where
  "announce r ck st =
     (if cache_has st ck then info (RemoteHas (repo_id r) ck) st
      else info (RemoteSync (repo_id r) ck) st)"

text \<open>One turn of the loop over \<^verbatim>\<open>remote_list\<close> that installs.\<close>

definition sync_key ::
  "env \<Rightarrow> remote \<Rightarrow> string list \<Rightarrow> string list option \<Rightarrow> string list option \<Rightarrow> string
     \<Rightarrow> library \<Rightarrow> unit result" where
  "sync_key env r all_keys use_only vids ck st =
     (if ck \<in> set all_keys then Return () st
      else if and_not_in use_only ck then Return () (info (SkipOldVersion ck) st)
      else fetch_and_put env r vids ck (announce r ck st))"

fun sync_keys ::
  "env \<Rightarrow> remote \<Rightarrow> string list \<Rightarrow> string list option \<Rightarrow> string list option \<Rightarrow> string list
     \<Rightarrow> library \<Rightarrow> unit result" where
  "sync_keys env r all_keys use_only vids [] st = Return () st"
| "sync_keys env r all_keys use_only vids (ck # cks) st =
     (case sync_key env r all_keys use_only vids ck st of
        Raise e st' \<Rightarrow> Raise e st'
      | Return u st' \<Rightarrow> sync_keys env r all_keys use_only vids cks st')"

text \<open>
  The body of the loop over the remotes. The value is the local variable \<^verbatim>\<open>version\<close>,
  which the next remote's turn starts with.
\<close>

definition sync_remote ::
  "env \<Rightarrow> bool \<Rightarrow> string list option \<Rightarrow> string \<times> remote \<Rightarrow> int option \<Rightarrow> library
     \<Rightarrow> (int option) result" where
  "sync_remote env last_only vids nr version st =
     (case listing (snd nr) of
        Inl e \<Rightarrow>
          if e = S3ResponseError then Return version (log_error (FailedList (fst nr)) st)
          else Raise e st
      | Inr remote_list \<Rightarrow>
          (let st1 = info (SyncingFrom (fst nr)) st;
               all_keys = map path (q_source_url (repo_id (snd nr)) (q_type [REMOTE] (files st1)))
           in case last_only_keys env last_only remote_list version st1 of
                Raise e st2 \<Rightarrow> Raise e st2
              | Return (version', use_only) st2 \<Rightarrow>
                  (case sync_keys env (snd nr) all_keys use_only vids remote_list st2 of
                     Raise e st3 \<Rightarrow> Raise e st3
                   | Return u st3 \<Rightarrow> Return version' st3)))"

fun sync_remote_list ::
  "env \<Rightarrow> bool \<Rightarrow> string list option \<Rightarrow> (string \<times> remote) list \<Rightarrow> int option \<Rightarrow> library
     \<Rightarrow> (int option) result" where
  "sync_remote_list env last_only vids [] version st = Return version st"
| "sync_remote_list env last_only vids (nr # nrs) version st =
     (case sync_remote env last_only vids nr version st of
        Raise e st' \<Rightarrow> Raise e st'
      | Return version' st' \<Rightarrow> sync_remote_list env last_only vids nrs version' st')"

definition clean_remote :: "remote \<Rightarrow> library \<Rightarrow> library" where
  "clean_remote r st =
     st\<lparr>files := q_delete (\<lambda>rows. q_source_url (repo_id r) (q_type [PARTITION, BUNDLE] rows))
                   (files st)\<rparr>"

text \<open>
  \<^verbatim>\<open>sync_remotes(remotes, clean, last_only, vids)\<close>. With \<^verbatim>\<open>clean\<close>, the rows are
  deleted before \<^verbatim>\<open>remotes\<close> gets its default, so \<^verbatim>\<open>remotes=None\<close> raises there.
\<close>

definition sync_remotes ::
  "env \<Rightarrow> (string \<times> remote) list option \<Rightarrow> bool \<Rightarrow> bool \<Rightarrow> string list option \<Rightarrow> library
     \<Rightarrow> unit result" where
  "sync_remotes env remotes_arg clean last_only vids st =
     (case (if clean
            then (case remotes_arg of
                    None \<Rightarrow> Raise AttributeError st
                  | Some rs \<Rightarrow> Return () (fold (\<lambda>nr. clean_remote (snd nr)) rs st))
            else Return () st) of
        Raise e st' \<Rightarrow> Raise e st'
      | Return u st1 \<Rightarrow>
          (let rs = (case remotes_arg of
                       None \<Rightarrow> remotes st1
                     | Some l \<Rightarrow> if l = [] then remotes st1 else l)
           in if rs = [] then Return () st1
              else (case sync_remote_list env last_only vids rs None st1 of
                      Raise e st2 \<Rightarrow> Raise e st2
                    | Return v st2 \<Rightarrow>
                        Return () (mark_updated None (Some ''library_info'')
                                     (mark_updated None (Some ''bundle_index'') st2)))))"

section \<open>Removing\<close>

text \<open>
  Modelled from the spec: \<^verbatim>\<open>database.remove_bundle\<close> is not among the sources. The
  catalog's \<^verbatim>\<open>removeBundle(vid)\<close> takes the dataset out of the library database, and a
  ledger record is ``deleted only by explicit removal of the owning dataset/partition'':
  the rows of the bundle and of its partitions go with it.
\<close>

definition remove_bundle :: "env \<Rightarrow> db_bundle \<Rightarrow> library \<Rightarrow> unit result" where
  "remove_bundle env b st =
     (case remove_bundle_raises env b of
        Some e \<Rightarrow> Raise e st
      | None \<Rightarrow>
          (case b_identity b of
             Inl e \<Rightarrow> Raise e st
           | Inr ident \<Rightarrow>
               Return ()
                 (st\<lparr>datasets := removeAll (vid ident) (datasets st),
                     files := filter (\<lambda>f. ref f \<noteq> vid ident
                                          \<and> ref f \<notin> set (map (\<lambda>p. vid (p_identity p)) (partitions b)))
                                (files st)\<rparr>)))"

text \<open>\<^verbatim>\<open>remove(bundle)\<close>.\<close>

definition remove :: "env \<Rightarrow> db_bundle \<Rightarrow> library \<Rightarrow> unit result" where
  "remove env b st =
     (case remove_bundle env b st of
        Raise e st' \<Rightarrow> Raise e st'
      | Return u st1 \<Rightarrow>
          (case b_identity b of
             Inl e \<Rightarrow> Raise e st1
           | Inr ident \<Rightarrow>
               Return () (cache_remove (cache_key ident) True
                            (mark_updated (Some (vid ident)) None st1))))"

section \<open>Finding\<close>

text \<open>A reference is a string or an \<^verbatim>\<open>Identity\<close> object.\<close>

datatype ref_arg = RefStr string | RefIdentity identity

text \<open>
  \<^verbatim>\<open>resolve(ref, location)\<close>; the location \<open>None\<close> is the default \<^verbatim>\<open>'default'\<close>.
  The \<^verbatim>\<open>source\<close> property is \<^verbatim>\<open>None\<close> when \<^verbatim>\<open>source_dir\<close> is not set.
\<close>

definition resolve ::
  "env \<Rightarrow> ref_arg \<Rightarrow> file_type list option \<Rightarrow> library \<Rightarrow> (dataset_identity option) result" where
  "resolve env rf location st =
     (let location' = (case location of None \<Rightarrow> [BUNDLE, PARTITION, REMOTE] | Some l \<Rightarrow> l);
          ref' = (case rf of RefStr s \<Rightarrow> s | RefIdentity i \<Rightarrow> vid i)
      in case resolve_ref_one env st ref' (Some location') of
           Inl e \<Rightarrow> if e = NotObjectNumberError then Return None st else Raise e st
         | Inr None \<Rightarrow> Return None st
         | Inr (Some ident) \<Rightarrow>
             (if source_dir st = None \<or> source_dir st = Some [] then Return (Some ident) st
              else (case source_path env ident of
                      Inl e \<Rightarrow> if e = ConfigurationError then Return (Some ident) st
                               else Raise e st
                    | Inr p \<Rightarrow> Return (Some (ident\<lparr>bundle_path := Some p\<rparr>)) st)))"

text \<open>
  \<^verbatim>\<open>has(ref, location)\<close>. Nothing stands between \<^verbatim>\<open>resolve\<close> and the read of
  \<^verbatim>\<open>dataset.partition\<close>: on \<^verbatim>\<open>None\<close> the read raises \<^verbatim>\<open>AttributeError\<close>.
\<close>

definition has :: "env \<Rightarrow> ref_arg \<Rightarrow> file_type list option \<Rightarrow> library \<Rightarrow> bool result" where
  "has env rf location st =
     (case resolve env rf location st of
        Raise e st' \<Rightarrow> Raise e st'
      | Return None st' \<Rightarrow> Raise AttributeError st'
      | Return (Some dataset) st' \<Rightarrow>
          (case partition dataset of
             Some p \<Rightarrow> Return (cache_has st' (cache_key p)) st'
           | None \<Rightarrow> Return (cache_has st' (cache_key dataset)) st'))"

section \<open>\<^verbatim>\<open>push\<close>\<close>

text \<open>
  The value \<^verbatim>\<open>push\<close> returns for one reference: \<^verbatim>\<open>what\<close>, whether \<^verbatim>\<open>start\<close> and
  \<^verbatim>\<open>end\<close> hold clock readings (they stay \<^verbatim>\<open>None\<close> on the ``has'' branch), and the
  size of the metadata.
\<close>

record push_value =
  what :: string
  timed :: bool
  md_size :: "nat option"

text \<open>
  Modelled from the spec: the cache classes are not among the sources. An upstream
  \<^verbatim>\<open>has\<close> a key it holds, and \<^verbatim>\<open>put\<close> stores the key; each call of \<^verbatim>\<open>put\<close> is
  recorded, since it is the transfer of the file.
\<close>

definition upstream_has :: "remote \<Rightarrow> string \<Rightarrow> bool" where
  "upstream_has u k = (k \<in> set (held u))"

definition upstream_put :: "string \<Rightarrow> string \<Rightarrow> remote \<Rightarrow> remote" where
  "upstream_put p k u = u\<lparr>held := held u @ [k], puts := puts u @ [(p, k)]\<rparr>"

definition call_back :: "bool \<Rightarrow> cb_call \<Rightarrow> library \<Rightarrow> library" where
  "call_back cb c st = (if cb then st\<lparr>called_back := called_back st @ [c]\<rparr> else st)"

text \<open>\<^verbatim>\<open>file_.state = 'pushed'\<close> on the row the query returned.\<close>

definition set_pushed :: "file_row \<Rightarrow> library \<Rightarrow> library" where
  "set_pushed file st =
     st\<lparr>files := map (\<lambda>f. if f = file then f\<lparr>state := ''pushed''\<rparr> else f) (files st)\<rparr>"

text \<open>
  The branch \<^verbatim>\<open>if ref is not None\<close> of \<^verbatim>\<open>push(upstream, ref, cb, dry_run)\<close>, for an
  upstream that is set. \<open>cb\<close> says whether a callback is given. The result carries the
  upstream as the call leaves it.
\<close>

definition push_ref ::
  "env \<Rightarrow> remote \<Rightarrow> string \<Rightarrow> bool \<Rightarrow> bool \<Rightarrow> library \<Rightarrow> push_value result \<times> remote" where
  "push_ref env upstream rf cb dry_run st =
     (case resolve_ref_one env st rf None of
        Inl e \<Rightarrow> (Raise e st, upstream)
      | Inr None \<Rightarrow> (Raise Exception st, upstream)
      | Inr (Some dsid) \<Rightarrow>
          (let ident = (case partition dsid of Some p \<Rightarrow> p | None \<Rightarrow> identity.truncate dsid)
           in case one (q_state ''new'' (q_ref (vid ident) (q_installed env (files st)))) of
                Inl e \<Rightarrow> (Raise e (log_error (FailedFor (vid ident)) st), upstream)
              | Inr file \<Rightarrow>
                  (let sz = to_meta_size env ident (path file)
                   in if upstream_has upstream (cache_key ident) then
                        (let st1 = call_back cb (CbHas (vid ident)) st;
                             st2 = (if \<not> dry_run then set_pushed file st1 else st1);
                             st3 = (if \<not> dry_run then commit st2 else st2)
                         in (Return \<lparr>what = ''has'', timed = False, md_size = sz\<rparr> st3, upstream))
                      else
                        (let st1 = call_back cb (CbPushingTo (repo_id upstream) (vid ident)) st;
                             upstream' = (if \<not> dry_run
                                          then upstream_put (path file) (cache_key ident) upstream
                                          else upstream);
                             st2 = (if \<not> dry_run then set_pushed file st1 else st1);
                             st3 = call_back cb (CbPushed (vid ident)) st2;
                             st4 = (if \<not> dry_run then commit st3 else st3)
                         in (Return \<lparr>what = ''pushed'', timed = True, md_size = sz\<rparr> st4,
                             upstream')))))"

fun push_refs ::
  "env \<Rightarrow> remote \<Rightarrow> string list \<Rightarrow> bool \<Rightarrow> bool \<Rightarrow> library \<Rightarrow> unit result \<times> remote" where
  "push_refs env upstream [] cb dry_run st = (Return () st, upstream)"
| "push_refs env upstream (rf # rfs) cb dry_run st =
     (case push_ref env upstream rf cb dry_run st of
        (Raise e st', upstream') \<Rightarrow> (Raise e st', upstream')
      | (Return v st', upstream') \<Rightarrow> push_refs env upstream' rfs cb dry_run st')"

text \<open>\<^verbatim>\<open>new_files\<close>: the rows the \<^verbatim>\<open>installed\<close> filter keeps that are in state \<^verbatim>\<open>'new'\<close>.\<close>

definition new_files :: "env \<Rightarrow> library \<Rightarrow> file_row list" where
  "new_files env st = q_state ''new'' (q_installed env (files st))"

definition store_list :: "remote \<Rightarrow> remote" where
  "store_list u = (if has_store_list u then u\<lparr>store_lists := Suc (store_lists u)\<rparr> else u)"

text \<open>
  \<^verbatim>\<open>push(upstream, ref, cb, dry_run)\<close>: without an upstream it raises; with a
  reference it pushes that one; without, it pushes every reference of \<^verbatim>\<open>new_files\<close> and
  then calls \<^verbatim>\<open>store_list\<close>.
\<close>

definition push ::
  "env \<Rightarrow> remote option \<Rightarrow> string option \<Rightarrow> bool \<Rightarrow> bool \<Rightarrow> library
     \<Rightarrow> (push_value option) result \<times> remote option" where
  "push env upstream rf cb dry_run st =
     (case upstream of
        None \<Rightarrow> (Raise Exception st, None)
      | Some u \<Rightarrow>
          (case rf of
             Some r \<Rightarrow>
               (case push_ref env u r cb dry_run st of
                  (Raise e st', u') \<Rightarrow> (Raise e st', Some u')
                | (Return v st', u') \<Rightarrow> (Return (Some v) st', Some u'))
           | None \<Rightarrow>
               (case push_refs env u (map ref (new_files env st)) cb dry_run st of
                  (Raise e st', u') \<Rightarrow> (Raise e st', Some u')
                | (Return v st', u') \<Rightarrow> (Return None st', Some (store_list u')))))"

section \<open>\<^verbatim>\<open>sync_library\<close>\<close>

text \<open>A directory of the cache: its files and its subdirectories, by name.\<close>

datatype dir = Dir "string list" "(string \<times> dir) list"

definition endswith :: "string \<Rightarrow> string \<Rightarrow> bool" where
  "endswith s suf = (length suf \<le> length s \<and> drop (length s - length suf) s = suf)"

text \<open>Python's \<^verbatim>\<open>sub in s\<close> on strings.\<close>

fun contains :: "string \<Rightarrow> string \<Rightarrow> bool" where
  "contains [] sub = (sub = [])"
| "contains (c # cs) sub = (take (length sub) (c # cs) = sub \<or> contains cs sub)"

text \<open>\<^verbatim>\<open>os.path.join\<close> of two components.\<close>

definition path_join :: "string \<Rightarrow> string \<Rightarrow> string" where
  "path_join a b =
     (if take 1 b = ''/'' then b
      else if a = [] \<or> endswith a ''/'' then a @ b
      else a @ ''/'' @ b)"

text \<open>
  The body of \<^verbatim>\<open>for file_ in f\<close>. A file whose \<^verbatim>\<open>identity\<close> cannot be read is logged
  and passed over; \<^verbatim>\<open>NotFoundError\<close> from \<^verbatim>\<open>_create_bundle\<close> passes the file over
  silently; any other exception from it is logged and raised again.
\<close>

definition walk_file ::
  "env \<Rightarrow> string \<Rightarrow> string \<Rightarrow> db_bundle list \<Rightarrow> library \<Rightarrow> (db_bundle list) result" where
  "walk_file env r file bundles st =
     (if endswith file ''.db'' then
        (let fpath = path_join r file
         in case create_bundle env fpath of
              Inl e \<Rightarrow>
                if e = NotFoundError then Return bundles st
                else Raise e (log_error (FailedProcess file fpath) st)
            | Inr b \<Rightarrow>
                (case b_identity b of
                   Inl e \<Rightarrow> Return bundles (log_error (FailedOpen fpath) st)
                 | Inr ident \<Rightarrow>
                     if is_bundle ident then Return (bundles @ [b]) st
                     else Return bundles st))
      else Return bundles st)"

fun walk_files ::
  "env \<Rightarrow> string \<Rightarrow> string list \<Rightarrow> db_bundle list \<Rightarrow> library \<Rightarrow> (db_bundle list) result" where
  "walk_files env r [] bundles st = Return bundles st"
| "walk_files env r (file # fs) bundles st =
     (case walk_file env r file bundles st of
        Raise e st' \<Rightarrow> Raise e st'
      | Return bundles' st' \<Rightarrow> walk_files env r fs bundles' st')"

text \<open>
  \<^verbatim>\<open>for r, d, f in os.walk(cache_dir, topdown=True)\<close>: a directory named like a
  database file of the same directory is not entered, and the files of a directory
  under \<^verbatim>\<open>/meta/\<close> are not looked at.
\<close>

fun walk :: "env \<Rightarrow> string \<Rightarrow> dir \<Rightarrow> db_bundle list \<Rightarrow> library \<Rightarrow> (db_bundle list) result"
  and walk_dirs ::
    "env \<Rightarrow> string \<Rightarrow> string list \<Rightarrow> (string \<times> dir) list \<Rightarrow> db_bundle list \<Rightarrow> library
       \<Rightarrow> (db_bundle list) result" where
  "walk env r (Dir f d) bundles st =
     (case (if contains r ''/meta/'' then Return bundles st
            else walk_files env r f bundles st) of
        Raise e st' \<Rightarrow> Raise e st'
      | Return bundles' st' \<Rightarrow> walk_dirs env r f d bundles' st')"
| "walk_dirs env r f [] bundles st = Return bundles st"
| "walk_dirs env r f (nd # ds) bundles st =
     (if fst nd @ ''.db'' \<in> set f then walk_dirs env r f ds bundles st
      else (case walk env (path_join r (fst nd)) (snd nd) bundles st of
              Raise e st' \<Rightarrow> Raise e st'
            | Return bundles' st' \<Rightarrow> walk_dirs env r f ds bundles' st'))"

text \<open>
  The loop \<^verbatim>\<open>for p in bundle.partitions\<close> of the install: \<^verbatim>\<open>put_partition\<close> returns a
  pair, which is true, so every partition is reported.
\<close>

fun log_partitions :: "env \<Rightarrow> partition_rec list \<Rightarrow> library \<Rightarrow> unit result" where
  "log_partitions env [] st = Return () st"
| "log_partitions env (p # ps) st =
     then_do (put_partition env p (Some (cache_repo_id st)) ''installed'' False st) (\<lambda>r st'.
       log_partitions env ps (info (InstalledPartition (vname (p_identity p))) st'))"

text \<open>
  The body of \<^verbatim>\<open>for bundle in bundles\<close>: \<^verbatim>\<open>ConflictError\<close> of \<^verbatim>\<open>put_bundle\<close> only
  skips the partitions; any other exception is logged and raised again, one from the
  partitions or the commit by both handlers.
\<close>

definition install_found :: "env \<Rightarrow> db_bundle \<Rightarrow> library \<Rightarrow> unit result" where
  "install_found env b st =
     (case b_identity b of
        Inl e \<Rightarrow> Raise e st
      | Inr ident \<Rightarrow>
          (let st1 = info (Installing (vname ident)) st
           in case put_bundle env b (Some (cache_repo_id st1)) False ''installed'' True False st1 of
                Raise e st2 \<Rightarrow>
                  if e = ConflictError then Return () (commit st2)
                  else Raise e (log_error (FailedInstall (vname ident)) st2)
              | Return res st2 \<Rightarrow>
                  (case log_partitions env (partitions b) st2 of
                     Raise e st3 \<Rightarrow>
                       Raise e (log_error (FailedInstall (vname ident))
                                  (log_error (FailedSync (vname ident)) st3))
                   | Return u st3 \<Rightarrow> Return () (commit st3))))"

fun install_all :: "env \<Rightarrow> db_bundle list \<Rightarrow> library \<Rightarrow> unit result" where
  "install_all env [] st = Return () st"
| "install_all env (b # bs) st =
     (case install_found env b st of
        Raise e st' \<Rightarrow> Raise e st'
      | Return u st' \<Rightarrow> install_all env bs st')"

text \<open>\<^verbatim>\<open>sync_library(clean)\<close> over the tree \<open>tree\<close> that stands at \<^verbatim>\<open>cache.cache_dir\<close>.\<close>

definition sync_library :: "env \<Rightarrow> dir \<Rightarrow> bool \<Rightarrow> library \<Rightarrow> (db_bundle list) result" where
  "sync_library env tree clean st =
     (let st0 = (if clean
                 then st\<lparr>files := q_delete (q_type [PARTITION])
                                     (q_delete (q_type [BUNDLE]) (files st))\<rparr>
                 else st);
          st1 = info (RebuildingFrom (cache_dir st0)) st0
      in case walk env (cache_dir st1) tree [] st1 of
           Raise e st2 \<Rightarrow> Raise e st2
         | Return found st2 \<Rightarrow>
             (let bundles = sort_key (\<lambda>b. length (partitions b)) found
              in case install_all env bundles st2 of
                   Raise e st3 \<Rightarrow> Raise e st3
                 | Return u st3 \<Rightarrow> Return bundles st3))"

section \<open>A small library to run the functions on\<close>

definition example_identity :: "string \<Rightarrow> identity" where
  "example_identity k =
     \<lparr>vid = ''vid:'' @ k, vname = k, cache_key = k, is_bundle = True\<rparr>"

definition example_env :: env where
  "example_env =
     \<lparr>remote_get = (\<lambda>k. Inr True),
      path_exists = (\<lambda>p. True),
      DbBundle = (\<lambda>p. if p = ''/cache/corrupt-1.0.1.db'' then Inl SqliteDatabaseError
                      else if p = ''/cache/part.db'' then Inl NotFoundError
                      else if p = ''/cache/broken.db''
                      then Inr \<lparr>b_identity = Inl OperationalError, b_path = p, partitions = []\<rparr>
                      else if p = ''/cache/noident-1.0.1.db''
                      then Inr \<lparr>b_identity = Inl NotABundle, b_path = p, partitions = []\<rparr>
                      else Inr \<lparr>b_identity = Inr (example_identity (drop 7 p)),
                                b_path = p, partitions = []\<rparr>),
      install_bundle_raises = (\<lambda>b. if b_path b = ''/cache/bad-1.0.1.db'' then Some NotABundle
                                     else if b_path b = ''/cache/dup-1.0.1.db'' then Some ConflictError
                                     else None),
      installed = (\<lambda>f. ftype f = BUNDLE \<or> ftype f = PARTITION),
      install_bundle_file = (\<lambda>b src c s rows.
         case b_identity b of
           Inl e \<Rightarrow> Inl e
         | Inr ident \<Rightarrow>
             Inr (True, rows @ [\<lparr>ref = vid ident, ftype = BUNDLE, source_url = src, state = s,
                                 path = b_path b\<rparr>])),
      install_partition_file = (\<lambda>p src c s rows.
         Inr (True, rows @ [\<lparr>ref = vid (p_identity p), ftype = PARTITION, source_url = src,
                             state = s, path = p_path p\<rparr>])),
      cache_put_raises = (\<lambda>p k. None),
      open_index_raises = None,
      dataset_doc_raises = (\<lambda>b. None),
      partition_doc_raises = (\<lambda>p. None),
      cache_path = (\<lambda>k. ''/cache/'' @ k),
      dict_order = (\<lambda>lk. lk),
      resolve_ref_one = (\<lambda>st rf loc.
         if rf \<in> set (datasets st)
         then Inr (Some (identity.extend (example_identity (drop 4 rf))
                           \<lparr>partition = None, bundle_path = None\<rparr>))
         else Inr None),
      source_path = (\<lambda>d. Inl ConfigurationError),
      to_meta_size = (\<lambda>i p. None),
      remove_bundle_raises = (\<lambda>b. None)\<rparr>"

definition example_remote :: "string list \<Rightarrow> remote" where
  "example_remote ks =
     \<lparr>repo_id = ''s3://remote'', listing = Inr ks, held = ks, puts = [],
      has_store_list = True, store_lists = 0\<rparr>"

definition empty_library :: library where
  "empty_library =
     \<lparr>files = [], datasets = [], cache = [], cache_upstreams = [], cache_repo_id = ''local'',
      cache_dir = ''/cache'', source_dir = None,
      has_doc_cache = False, search_docs = [], search_opened = False, search_writer = None,
      all_datasets = None, all_partitions = None, marked = [], logged = [],
      commits = 0, called_back = [], remotes = []\<rparr>"

text \<open>A library with one bundle recorded as new, held in the cache and upstream of it.\<close>

definition pushing_library :: library where
  "pushing_library =
     empty_library\<lparr>files := [\<lparr>ref = ''vid:a-1.0.1.db'', ftype = BUNDLE, source_url = ''local'',
                               state = ''new'', path = ''/cache/a-1.0.1.db''\<rparr>],
                    datasets := [''vid:a-1.0.1.db''],
                    cache := [''a-1.0.1.db''],
                    cache_upstreams := [[''a-1.0.1.db'', ''b-1.0.1.db'']]\<rparr>"

text \<open>A library whose ledger already attributes a-1.0.2.db to the remote.\<close>

definition known_library :: library where
  "known_library =
     empty_library\<lparr>files := [\<lparr>ref = ''vid:a-1.0.2.db'', ftype = REMOTE,
                               source_url = ''s3://remote'', state = ''installed'',
                               path = ''a-1.0.2.db''\<rparr>]\<rparr>"

section \<open>Which keys the last-version filter lets through\<close>

text \<open>
  The version the first loop reads from a key that matches \<^verbatim>\<open>(\d+)\.db$\<close>, the group
  of a key (\<open>sub_version\<close>, the key without its version), and the key of a listing that
  the loop keeps for its group: the first key of the group's highest version.
\<close>

definition revision :: "string \<Rightarrow> int" where
  "revision k = (case search_revision k of Some g \<Rightarrow> int_of_digits g | None \<Rightarrow> 0)"

definition latest :: "string list \<Rightarrow> string \<Rightarrow> bool" where
  "latest ks k =
     (k \<in> set ks
      \<and> (\<forall>k'\<in>set ks. sub_version k' = sub_version k \<longrightarrow> revision k' \<le> revision k)
      \<and> (\<forall>k'\<in>set (takeWhile (\<lambda>x. x \<noteq> k) ks).
            sub_version k' = sub_version k \<longrightarrow> revision k' < revision k))"

definition parses :: "string \<Rightarrow> bool" where
  "parses k = (search_revision k \<noteq> None \<and> 1 \<le> revision k)"

lemma takeWhile_snoc_mem:
  "c \<in> set p \<Longrightarrow> takeWhile (\<lambda>x. x \<noteq> c) (p @ [k]) = takeWhile (\<lambda>x. x \<noteq> c) p"
  by (induction p) auto

lemma takeWhile_snoc_new:
  "k \<notin> set p \<Longrightarrow> takeWhile (\<lambda>x. x \<noteq> k) (p @ [k]) = p"
  by (induction p) auto

lemma latest_snoc_old:
  "c \<in> set p \<Longrightarrow>
   latest (p @ [k]) c \<longleftrightarrow> latest p c \<and> (sub_version k = sub_version c \<longrightarrow> revision k \<le> revision c)"
  by (auto simp: latest_def takeWhile_snoc_mem)

lemma latest_snoc_new:
  "k \<notin> set p \<Longrightarrow>
   latest (p @ [k]) k \<longleftrightarrow> (\<forall>k'\<in>set p. sub_version k' = sub_version k \<longrightarrow> revision k' < revision k)"
  by (auto simp: latest_def takeWhile_snoc_new)

lemma first_of_two:
  "a \<in> set p \<Longrightarrow> b \<in> set p \<Longrightarrow> a \<noteq> b \<Longrightarrow>
   a \<in> set (takeWhile (\<lambda>x. x \<noteq> b) p) \<or> b \<in> set (takeWhile (\<lambda>x. x \<noteq> a) p)"
  by (induction p) auto

lemma latest_unique:
  assumes "latest p a" "latest p b" "sub_version a = sub_version b"
  shows "a = b"
proof (rule ccontr)
  assume ne: "a \<noteq> b"
  have ab: "a \<in> set p" "b \<in> set p" using assms by (auto simp: latest_def)
  have eq: "revision a = revision b"
    using assms ab by (auto simp: latest_def intro: antisym)
  from first_of_two[OF ab ne] show False
  proof
    assume "a \<in> set (takeWhile (\<lambda>x. x \<noteq> b) p)"
    then have "revision a < revision b" using assms by (auto simp: latest_def)
    then show False using eq by simp
  next
    assume "b \<in> set (takeWhile (\<lambda>x. x \<noteq> a) p)"
    then have "revision b < revision a" using assms by (auto simp: latest_def)
    then show False using eq by simp
  qed
qed

definition scan_inv :: "string list \<Rightarrow> last_keys_t \<Rightarrow> bool" where
  "scan_inv p lk =
     (distinct (map fst lk)
      \<and> (\<forall>g m c. map_of lk g = Some (m, c) \<longrightarrow> latest p c \<and> sub_version c = g \<and> revision c = m)
      \<and> (\<forall>k\<in>set p. map_of lk (sub_version k) \<noteq> None))"

lemma update_fresh_default:
  "k \<notin> fst ` set lk \<Longrightarrow> AList.update k v (lk @ [(k, w)]) = lk @ [(k, v)]"
  by (induction lk) auto

lemma scan_key_parses:
  assumes "parses k"
  shows "scan_key k version lk st =
           Return (Some (revision k),
                   (case map_of lk (sub_version k) of
                      None \<Rightarrow> lk @ [(sub_version k, (revision k, k))]
                    | Some mc \<Rightarrow> if revision k > fst mc
                                 then AList.update (sub_version k) (revision k, k) lk else lk)) st"
proof -
  from assms obtain g where g: "search_revision k = Some g" by (auto simp: parses_def)
  have pos: "0 < revision k" using assms by (simp add: parses_def)
  have rv: "int_of_digits g = revision k" using g by (simp add: revision_def)
  have fresh: "map_of lk (sub_version k) = None \<Longrightarrow>
      AList.update (sub_version k) (revision k, k) (lk @ [(sub_version k, (0, []))])
      = lk @ [(sub_version k, (revision k, k))]"
    by (simp add: update_fresh_default map_of_eq_None_iff)
  show ?thesis
    using pos fresh
    by (auto simp: scan_key_def g rv getitem_def Let_def split: option.splits)
qed


lemma scan_key_inv:
  assumes inv: "scan_inv p lk" and pk: "parses k"
  shows "\<exists>lk'. scan_key k version lk st = Return (Some (revision k), lk') st \<and> scan_inv (p @ [k]) lk'"
proof (cases "map_of lk (sub_version k)")
  case None
  let ?lk' = "lk @ [(sub_version k, (revision k, k))]"
  have run: "scan_key k version lk st = Return (Some (revision k), ?lk') st"
    using scan_key_parses[OF pk] None by simp
  have nogrp: "\<forall>k'\<in>set p. sub_version k' \<noteq> sub_version k"
    using inv None by (auto simp: scan_inv_def)
  then have knew: "k \<notin> set p" by auto
  have lk: "latest (p @ [k]) k"
    using nogrp by (simp add: latest_snoc_new[OF knew])
  have d: "distinct (map fst ?lk')"
    using inv None by (auto simp: scan_inv_def map_of_eq_None_iff)
  have m: "map_of ?lk' = (map_of lk)(sub_version k \<mapsto> (revision k, k))"
    using None by (auto simp: map_of_append map_add_def fun_eq_iff split: option.splits)
  have b: "\<forall>g m c. map_of ?lk' g = Some (m, c)
             \<longrightarrow> latest (p @ [k]) c \<and> sub_version c = g \<and> revision c = m"
  proof (intro allI impI)
    fix g m c assume a: "map_of ?lk' g = Some (m, c)"
    show "latest (p @ [k]) c \<and> sub_version c = g \<and> revision c = m"
    proof (cases "g = sub_version k")
      case True
      then show ?thesis using a lk unfolding m by auto
    next
      case False
      then have old: "map_of lk g = Some (m, c)" using a unfolding m by simp
      then have o: "latest p c" "sub_version c = g" "revision c = m"
        using inv by (auto simp: scan_inv_def)
      have "c \<in> set p" using o(1) by (simp add: latest_def)
      then show ?thesis using o False by (simp add: latest_snoc_old)
    qed
  qed
  have c: "\<forall>k'\<in>set (p @ [k]). map_of ?lk' (sub_version k') \<noteq> None"
    using inv unfolding m by (auto simp: scan_inv_def)
  show ?thesis using run d b c unfolding scan_inv_def by blast
next
  case (Some mc)
  obtain m0 c0 where mc: "mc = (m0, c0)" by (cases mc)
  have cur: "latest p c0" "sub_version c0 = sub_version k" "revision c0 = m0"
    using inv Some mc by (auto simp: scan_inv_def)
  have c0p: "c0 \<in> set p" using cur(1) by (simp add: latest_def)
  have maxp: "\<forall>k'\<in>set p. sub_version k' = sub_version k \<longrightarrow> revision k' \<le> m0"
    using cur by (auto simp: latest_def)
  show ?thesis
  proof (cases "revision k > m0")
    case True
    let ?lk' = "AList.update (sub_version k) (revision k, k) lk"
    have run: "scan_key k version lk st = Return (Some (revision k), ?lk') st"
      using scan_key_parses[OF pk] Some mc True by simp
    have knew: "k \<notin> set p" using maxp True by force
    have lk: "latest (p @ [k]) k"
      using maxp True by (force simp: latest_snoc_new[OF knew])
    have d: "distinct (map fst ?lk')"
      using inv by (simp add: scan_inv_def distinct_update)
    have m: "map_of ?lk' = (map_of lk)(sub_version k \<mapsto> (revision k, k))"
      by (rule update_conv')
    have b: "\<forall>g m c. map_of ?lk' g = Some (m, c)
               \<longrightarrow> latest (p @ [k]) c \<and> sub_version c = g \<and> revision c = m"
    proof (intro allI impI)
      fix g m' c assume a: "map_of ?lk' g = Some (m', c)"
      show "latest (p @ [k]) c \<and> sub_version c = g \<and> revision c = m'"
      proof (cases "g = sub_version k")
        case True
        then show ?thesis using a lk unfolding m by auto
      next
        case False
        then have old: "map_of lk g = Some (m', c)" using a unfolding m by simp
        then have o: "latest p c" "sub_version c = g" "revision c = m'"
          using inv by (auto simp: scan_inv_def)
        have "c \<in> set p" using o(1) by (simp add: latest_def)
        then show ?thesis using o False by (simp add: latest_snoc_old)
      qed
    qed
    have c: "\<forall>k'\<in>set (p @ [k]). map_of ?lk' (sub_version k') \<noteq> None"
      using inv unfolding m by (auto simp: scan_inv_def)
    show ?thesis using run d b c unfolding scan_inv_def by blast
  next
    case False
    have run: "scan_key k version lk st = Return (Some (revision k), lk) st"
      using scan_key_parses[OF pk] Some mc False by simp
    have b: "\<forall>g m c. map_of lk g = Some (m, c)
               \<longrightarrow> latest (p @ [k]) c \<and> sub_version c = g \<and> revision c = m"
    proof (intro allI impI)
      fix g m' c assume a: "map_of lk g = Some (m', c)"
      then have o: "latest p c" "sub_version c = g" "revision c = m'"
        using inv by (auto simp: scan_inv_def)
      have cp: "c \<in> set p" using o(1) by (simp add: latest_def)
      have "sub_version k = sub_version c \<longrightarrow> revision k \<le> revision c"
      proof
        assume "sub_version k = sub_version c"
        then have "g = sub_version k" using o(2) by simp
        then have "m' = m0" using a Some mc by simp
        then show "revision k \<le> revision c" using False o(3) by simp
      qed
      then show "latest (p @ [k]) c \<and> sub_version c = g \<and> revision c = m'"
        using o cp by (simp add: latest_snoc_old)
    qed
    have c: "\<forall>k'\<in>set (p @ [k]). map_of lk (sub_version k') \<noteq> None"
    proof
      fix k' assume "k' \<in> set (p @ [k])"
      then consider "k' \<in> set p" | "k' = k" by auto
      then show "map_of lk (sub_version k') \<noteq> None"
      proof cases
        case 1 then show ?thesis using inv unfolding scan_inv_def by blast
      next
        case 2 then show ?thesis using Some by simp
      qed
    qed
    have d: "distinct (map fst lk)" using inv by (simp add: scan_inv_def)
    show ?thesis using run d b c unfolding scan_inv_def by blast
  qed
qed

lemma scan_keys_inv:
  assumes "scan_inv p lk" and "\<forall>k\<in>set ks. parses k"
  shows "\<exists>version' lk'. scan_keys ks version lk st = Return (version', lk') st
            \<and> scan_inv (p @ ks) lk'"
  using assms
proof (induction ks arbitrary: p lk version)
  case Nil
  then show ?case by simp
next
  case (Cons k ks)
  from Cons.prems have pk: "parses k" by simp
  from scan_key_inv[OF Cons.prems(1) pk, of version st] obtain lk1 where
    s1: "scan_key k version lk st = Return (Some (revision k), lk1) st"
    and i1: "scan_inv (p @ [k]) lk1" by blast
  from Cons.IH[OF i1, of "Some (revision k)"] Cons.prems(2) obtain v' lk' where
    "scan_keys ks (Some (revision k)) lk1 st = Return (v', lk') st" "scan_inv ((p @ [k]) @ ks) lk'"
    by auto
  then show ?case using s1 by simp
qed

lemma scan_inv_values:
  assumes "scan_inv p lk" and "k \<in> set p"
  shows "k \<in> set (map snd (map snd lk)) \<longleftrightarrow> latest p k"
proof
  assume "k \<in> set (map snd (map snd lk))"
  then obtain g m where "(g, (m, k)) \<in> set lk" by force
  then have "map_of lk g = Some (m, k)" using assms(1) by (simp add: scan_inv_def)
  then show "latest p k" using assms(1) by (auto simp: scan_inv_def)
next
  assume l: "latest p k"
  from assms obtain m c where e: "map_of lk (sub_version k) = Some (m, c)"
    by (fastforce simp: scan_inv_def)
  then have "latest p c" "sub_version c = sub_version k"
    using assms(1) by (auto simp: scan_inv_def)
  then have "c = k" using l latest_unique by blast
  then have "(sub_version k, (m, k)) \<in> set lk" using e by (auto dest: map_of_SomeD)
  then show "k \<in> set (map snd (map snd lk))" by force
qed

definition state_of :: "'a result \<Rightarrow> library" where
  "state_of r = (case r of Raise e st \<Rightarrow> st | Return x st \<Rightarrow> st)"

definition raised :: "'a result \<Rightarrow> error option" where
  "raised r = (case r of Raise e st \<Rightarrow> Some e | Return x st \<Rightarrow> None)"

lemma scan_inv_empty: "scan_inv [] []"
  by (simp add: scan_inv_def)

lemma last_only_keys_parses:
  assumes perm: "\<forall>lk. set (dict_order env lk) = set lk"
    and pk: "\<forall>k\<in>set ks. parses k"
  shows "\<exists>version' use_only.
           last_only_keys env True ks version st = Return (version', Some use_only) st
           \<and> (\<forall>k\<in>set ks. k \<in> set use_only \<longleftrightarrow> latest ks k)
           \<and> (ks \<noteq> [] \<longrightarrow> use_only \<noteq> [])"
proof -
  from scan_keys_inv[OF scan_inv_empty pk, of version st] obtain v' lk' where
    run: "scan_keys ks version [] st = Return (v', lk') st" and inv: "scan_inv ks lk'"
    by auto
  let ?vals = "map snd (dict_order env lk')"
  have s: "set (map snd ?vals) = set (map snd (map snd lk'))"
    using perm by (simp add: image_image)
  have a: "\<forall>k\<in>set ks. k \<in> set (map snd ?vals) \<longleftrightarrow> latest ks k"
    using scan_inv_values[OF inv] s by simp
  have b: "ks \<noteq> [] \<longrightarrow> map snd ?vals \<noteq> []"
  proof
    assume "ks \<noteq> []"
    then obtain k where "k \<in> set ks" by (cases ks) auto
    then have "map_of lk' (sub_version k) \<noteq> None" using inv unfolding scan_inv_def by blast
    then have "set lk' \<noteq> {}" by (cases lk') auto
    then have "set (dict_order env lk') \<noteq> {}" using perm by simp
    then show "map snd ?vals \<noteq> []" by simp
  qed
  show ?thesis
    using run a b by (simp add: last_only_keys_def Let_def)
qed

lemma sync_key_listed:
  assumes "k \<in> set use_only"
  shows "sync_key env r all_keys (Some use_only) vids k s =
           (if k \<in> set all_keys then Return () s
            else fetch_and_put env r vids k (announce r k s))"
  using assms by (auto simp: sync_key_def and_not_in_def)

lemma sync_key_not_listed:
  assumes "k \<notin> set use_only" "use_only \<noteq> []"
  shows "sync_key env r all_keys (Some use_only) vids k s =
           (if k \<in> set all_keys then Return () s
            else Return () (info (SkipOldVersion k) s))"
  using assms by (auto simp: sync_key_def and_not_in_def)

lemma last_only_sync_key:
  assumes "\<forall>lk. set (dict_order env lk) = set lk"
    and "\<forall>k\<in>set remote_list. parses k"
  shows "\<exists>version' use_only.
            last_only_keys env True remote_list version st = Return (version', Some use_only) st
            \<and> (\<forall>k\<in>set remote_list. \<forall>s.
                  sync_key env r all_keys (Some use_only) vids k s =
                    (if k \<in> set all_keys then Return () s
                     else if latest remote_list k
                     then fetch_and_put env r vids k (announce r k s)
                     else Return () (info (SkipOldVersion k) s)))"
proof -
  from last_only_keys_parses[OF assms, of version st] obtain version' use_only where
    run: "last_only_keys env True remote_list version st = Return (version', Some use_only) st"
    and mem: "\<forall>k\<in>set remote_list. k \<in> set use_only \<longleftrightarrow> latest remote_list k"
    and ne: "remote_list \<noteq> [] \<longrightarrow> use_only \<noteq> []"
    by blast
  have "\<forall>k\<in>set remote_list. \<forall>s.
          sync_key env r all_keys (Some use_only) vids k s =
            (if k \<in> set all_keys then Return () s
             else if latest remote_list k
             then fetch_and_put env r vids k (announce r k s)
             else Return () (info (SkipOldVersion k) s))"
  proof (intro ballI allI)
    fix k s assume k: "k \<in> set remote_list"
    then have ne': "use_only \<noteq> []" using ne by auto
    show "sync_key env r all_keys (Some use_only) vids k s =
            (if k \<in> set all_keys then Return () s
             else if latest remote_list k
             then fetch_and_put env r vids k (announce r k s)
             else Return () (info (SkipOldVersion k) s))"
    proof (cases "latest remote_list k")
      case True
      then have "k \<in> set use_only" using mem k by simp
      then show ?thesis using True by (simp add: sync_key_listed)
    next
      case False
      then have "k \<notin> set use_only" using mem k by simp
      then show ?thesis using False ne' by (simp add: sync_key_not_listed)
    qed
  qed
  then show ?thesis
    using run by blast
qed

text \<open>
  The keys of the listing that the ledger already attributes to the remote, and the
  pass over a listing said in the words of the property: a known key is passed over; of
  the others, the latest of its group in the whole listing is fetched and installed, and
  any other is skipped with the log entry.
\<close>

definition known_keys :: "remote \<Rightarrow> library \<Rightarrow> string list" where
  "known_keys r st = map path (q_source_url (repo_id r) (q_type [REMOTE] (files st)))"

fun install_latest ::
  "env \<Rightarrow> remote \<Rightarrow> string list \<Rightarrow> string list option \<Rightarrow> string list \<Rightarrow> string list \<Rightarrow> library
     \<Rightarrow> unit result" where
  "install_latest env r known vids whole [] st = Return () st"
| "install_latest env r known vids whole (k # ks) st =
     (case (if k \<in> set known then Return () st
            else if latest whole k then fetch_and_put env r vids k (announce r k st)
            else Return () (info (SkipOldVersion k) st)) of
        Raise e st' \<Rightarrow> Raise e st'
      | Return u st' \<Rightarrow> install_latest env r known vids whole ks st')"

lemma sync_keys_install_latest:
  assumes "\<forall>k\<in>set ks. \<forall>s.
             sync_key env r known use_only vids k s =
               (if k \<in> set known then Return () s
                else if latest whole k then fetch_and_put env r vids k (announce r k s)
                else Return () (info (SkipOldVersion k) s))"
  shows "sync_keys env r known use_only vids ks st = install_latest env r known vids whole ks st"
  using assms
proof (induction ks arbitrary: st)
  case Nil
  then show ?case by simp
next
  case (Cons k ks)
  then show ?case by (simp split: result.splits)
qed

lemma sync_remote_install_latest:
  assumes "\<forall>lk. set (dict_order env lk) = set lk"
    and "listing r = Inr remote_list"
    and "\<forall>k\<in>set remote_list. parses k"
  shows "\<exists>version'. sync_remote env True vids (name, r) version st =
           (case install_latest env r (known_keys r st) vids remote_list remote_list
                   (info (SyncingFrom name) st) of
              Raise e s \<Rightarrow> Raise e s
            | Return u s \<Rightarrow> Return version' s)"
proof -
  let ?st1 = "info (SyncingFrom name) st"
  let ?known = "known_keys r st"
  from last_only_sync_key[OF assms(1) assms(3), of version ?st1 r ?known vids]
  obtain version' use_only where
    run: "last_only_keys env True remote_list version ?st1 = Return (version', Some use_only) ?st1"
    and step: "\<forall>k\<in>set remote_list. \<forall>s.
                 sync_key env r ?known (Some use_only) vids k s =
                   (if k \<in> set ?known then Return () s
                    else if latest remote_list k then fetch_and_put env r vids k (announce r k s)
                    else Return () (info (SkipOldVersion k) s))"
    by blast
  have k: "map path (q_source_url (repo_id r) (q_type [REMOTE] (files ?st1))) = ?known"
    by (simp add: known_keys_def info_def)
  have "sync_keys env r ?known (Some use_only) vids remote_list ?st1
          = install_latest env r ?known vids remote_list remote_list ?st1"
    using step by (rule sync_keys_install_latest)
  then have "sync_remote env True vids (name, r) version st =
           (case install_latest env r ?known vids remote_list remote_list ?st1 of
              Raise e s \<Rightarrow> Raise e s
            | Return u s \<Rightarrow> Return version' s)"
    using assms(2) run k by (simp add: sync_remote_def Let_def)
  then show ?thesis by blast
qed

text \<open>
  C1, as the code has it. With \<^verbatim>\<open>last_only\<close>, and for a remote whose listing has only
  keys with a version that parses and is at least 1, a pass of \<^verbatim>\<open>sync_remotes\<close> over the
  remote does this: the keys of the whole listing (not only those the ledger does not
  know yet) are grouped by their name without the version; a key that the ledger already
  attributes to the remote is passed over; of the others, exactly the key that holds the
  highest version of its group in the whole listing goes on to be fetched and installed,
  and every other one is skipped with the log entry ``Skip old version''. In particular,
  for the listing a-1.0.1.db, a-1.0.2.db, b-1.0.1.db exactly a-1.0.2.db and b-1.0.1.db are
  installed when the ledger is empty, and only b-1.0.1.db when the ledger already holds
  a-1.0.2.db for the remote.
\<close>

theorem sync_remotes_last_only_latest:
  assumes "\<forall>lk. set (dict_order env lk) = set lk"
    and "listing r = Inr remote_list"
    and "\<forall>k\<in>set remote_list. parses k"
  shows "(\<exists>version'. sync_remote env True vids (name, r) version st =
            (case install_latest env r (known_keys r st) vids remote_list remote_list
                    (info (SyncingFrom name) st) of
               Raise e s \<Rightarrow> Raise e s
             | Return u s \<Rightarrow> Return version' s))
         \<and> sync_remotes env (Some [(name, r)]) False True vids st =
             (case install_latest env r (known_keys r st) vids remote_list remote_list
                     (info (SyncingFrom name) st) of
                Raise e s \<Rightarrow> Raise e s
              | Return u s \<Rightarrow>
                  Return () (mark_updated None (Some ''library_info'')
                               (mark_updated None (Some ''bundle_index'') s)))
         \<and> datasets (state_of (sync_remotes example_env
               (Some [(''r'', example_remote [''a-1.0.1.db'', ''a-1.0.2.db'', ''b-1.0.1.db''])])
               False True None empty_library))
             = [''vid:a-1.0.2.db'', ''vid:b-1.0.1.db'']
         \<and> datasets (state_of (sync_remotes example_env
               (Some [(''r'', example_remote [''a-1.0.1.db'', ''a-1.0.2.db'', ''b-1.0.1.db''])])
               False True None known_library))
             = [''vid:b-1.0.1.db'']"
proof (intro conjI)
  from sync_remote_install_latest[OF assms, of vids name version st]
  show "\<exists>version'. sync_remote env True vids (name, r) version st =
            (case install_latest env r (known_keys r st) vids remote_list remote_list
                    (info (SyncingFrom name) st) of
               Raise e s \<Rightarrow> Raise e s
             | Return u s \<Rightarrow> Return version' s)" .
next
  from sync_remote_install_latest[OF assms, of vids name None st]
  obtain version' where
    "sync_remote env True vids (name, r) None st =
            (case install_latest env r (known_keys r st) vids remote_list remote_list
                    (info (SyncingFrom name) st) of
               Raise e s \<Rightarrow> Raise e s
             | Return u s \<Rightarrow> Return version' s)" by blast
  then show "sync_remotes env (Some [(name, r)]) False True vids st =
             (case install_latest env r (known_keys r st) vids remote_list remote_list
                     (info (SyncingFrom name) st) of
                Raise e s \<Rightarrow> Raise e s
              | Return u s \<Rightarrow>
                  Return () (mark_updated None (Some ''library_info'')
                               (mark_updated None (Some ''bundle_index'') s)))"
    by (simp add: sync_remotes_def split: result.splits)
next
  show "datasets (state_of (sync_remotes example_env
               (Some [(''r'', example_remote [''a-1.0.1.db'', ''a-1.0.2.db'', ''b-1.0.1.db''])])
               False True None empty_library))
             = [''vid:a-1.0.2.db'', ''vid:b-1.0.1.db'']"
    by code_simp
next
  show "datasets (state_of (sync_remotes example_env
               (Some [(''r'', example_remote [''a-1.0.1.db'', ''a-1.0.2.db'', ''b-1.0.1.db''])])
               False True None known_library))
             = [''vid:b-1.0.1.db'']"
    by code_simp
qed

theorem sync_remotes_last_only_latest_witness:
  "(\<forall>lk. set (dict_order example_env lk) = set lk)
   \<and> listing (example_remote [''a-1.0.1.db'', ''a-1.0.2.db'', ''b-1.0.1.db''])
       = Inr [''a-1.0.1.db'', ''a-1.0.2.db'', ''b-1.0.1.db'']
   \<and> parses ''a-1.0.1.db'' \<and> parses ''a-1.0.2.db'' \<and> parses ''b-1.0.1.db''
   \<and> known_keys (example_remote [''a-1.0.1.db'', ''a-1.0.2.db'', ''b-1.0.1.db'']) known_library
       = [''a-1.0.2.db'']
   \<and> sync_remotes example_env
        (Some [(''r'', example_remote [''a-1.0.1.db'', ''a-1.0.2.db'', ''b-1.0.1.db''])])
        False True None known_library
       = (case install_latest example_env
                 (example_remote [''a-1.0.1.db'', ''a-1.0.2.db'', ''b-1.0.1.db''])
                 [''a-1.0.2.db''] None
                 [''a-1.0.1.db'', ''a-1.0.2.db'', ''b-1.0.1.db'']
                 [''a-1.0.1.db'', ''a-1.0.2.db'', ''b-1.0.1.db'']
                 (info (SyncingFrom ''r'') known_library) of
            Raise e s \<Rightarrow> Raise e s
          | Return u s \<Rightarrow>
              Return () (mark_updated None (Some ''library_info'')
                           (mark_updated None (Some ''bundle_index'') s)))"
proof -
  have h1: "\<forall>lk. set (dict_order example_env lk) = set lk"
    by (simp add: example_env_def)
  have h2: "listing (example_remote [''a-1.0.1.db'', ''a-1.0.2.db'', ''b-1.0.1.db''])
              = Inr [''a-1.0.1.db'', ''a-1.0.2.db'', ''b-1.0.1.db'']"
    by (simp add: example_remote_def)
  have h3: "\<forall>k\<in>set [''a-1.0.1.db'', ''a-1.0.2.db'', ''b-1.0.1.db'']. parses k"
    by code_simp
  have k: "known_keys (example_remote [''a-1.0.1.db'', ''a-1.0.2.db'', ''b-1.0.1.db''])
             known_library = [''a-1.0.2.db'']"
    by code_simp
  from sync_remotes_last_only_latest[OF h1 h2 h3, of None "''r''" None known_library]
  show ?thesis using h1 h2 h3 k by simp
qed

text \<open>
  C1 as stated fails where the newest key of a group is already in the ledger: the
  remote lists a-1.0.1.db, a-1.0.2.db and b-1.0.1.db, and the ledger attributes a-1.0.2.db
  to the remote. Of the keys still missing, a-1.0.1.db holds the highest version of its
  group, yet it is skipped as an old version and never installed.
\<close>

theorem sync_remotes_delta_group_counterexample:
  "known_keys (example_remote [''a-1.0.1.db'', ''a-1.0.2.db'', ''b-1.0.1.db'']) known_library
     = [''a-1.0.2.db'']
   \<and> latest (filter (\<lambda>k. k \<noteq> ''a-1.0.2.db'') [''a-1.0.1.db'', ''a-1.0.2.db'', ''b-1.0.1.db''])
       ''a-1.0.1.db''
   \<and> SkipOldVersion ''a-1.0.1.db''
       \<in> set (logged (state_of (sync_remotes example_env
               (Some [(''r'', example_remote [''a-1.0.1.db'', ''a-1.0.2.db'', ''b-1.0.1.db''])])
               False True None known_library)))
   \<and> datasets (state_of (sync_remotes example_env
               (Some [(''r'', example_remote [''a-1.0.1.db'', ''a-1.0.2.db'', ''b-1.0.1.db''])])
               False True None known_library))
       = [''vid:b-1.0.1.db'']"
  by code_simp

text \<open>
  The listing a-1.0.0.db, a-1.0.1.db and b-1.0.0.db of the specification: the version 0 of
  b-1.0.0.db is not greater than the 0 the dictionary starts from, so the group keeps
  the empty key, b-1.0.0.db is skipped as an old version and only a-1.0.1.db is
  installed.
\<close>

lemma sync_remotes_version_zero_example:
  "datasets (state_of (sync_remotes example_env
      (Some [(''r'', example_remote [''a-1.0.0.db'', ''a-1.0.1.db'', ''b-1.0.0.db''])])
      False True None empty_library))
     = [''vid:a-1.0.1.db'']
   \<and> SkipOldVersion ''b-1.0.0.db''
       \<in> set (logged (state_of (sync_remotes example_env
             (Some [(''r'', example_remote [''a-1.0.0.db'', ''a-1.0.1.db'', ''b-1.0.0.db''])])
             False True None empty_library)))"
  by code_simp

section \<open>Failures of one artifact in \<^verbatim>\<open>sync_remotes\<close>\<close>

text \<open>
  The failures of one key that the loop body answers with a log entry and a
  \<^verbatim>\<open>continue\<close>, read off the state the fetch starts from.
\<close>

definition tolerated :: "env \<Rightarrow> remote \<Rightarrow> string list option \<Rightarrow> string \<Rightarrow> library \<Rightarrow> bool" where
  "tolerated env r vids ck st =
     (case get_bundle_by_cache_key env ck st of
        Raise e st1 \<Rightarrow> e = S3ResponseError
      | Return None st1 \<Rightarrow> True
      | Return (Some b) st1 \<Rightarrow>
          (case b_identity b of
             Inl e \<Rightarrow> False
           | Inr ident \<Rightarrow>
               \<not> and_not_in vids (vid ident)
               \<and> raised (put_bundle env b (Some (repo_id r)) False ''installed'' True False st1)
                   = Some NotABundle))"

definition tolerated_log :: "string \<Rightarrow> log_entry list" where
  "tolerated_log ck = [FailedGet ck, FailedFetch ck, NotValidBundle ck]"

lemma fetch_and_put_tolerated:
  assumes "tolerated env r vids ck st"
  shows "\<exists>st'. fetch_and_put env r vids ck st = Return () st'
           \<and> last (logged st') \<in> set (tolerated_log ck)"
proof (cases "get_bundle_by_cache_key env ck st")
  case (Raise e st1)
  then have e: "e = S3ResponseError" using assms by (simp add: tolerated_def)
  then show ?thesis
    using Raise by (simp add: fetch_and_put_def log_error_def tolerated_log_def)
next
  case (Return ob st1)
  show ?thesis
  proof (cases ob)
    case None
    then show ?thesis
      using Return by (simp add: fetch_and_put_def log_error_def tolerated_log_def)
  next
    case (Some b)
    from assms Return Some obtain ident where
      i: "b_identity b = Inr ident" and v: "\<not> and_not_in vids (vid ident)"
      and p: "raised (put_bundle env b (Some (repo_id r)) False ''installed'' True False st1)
                = Some NotABundle"
      by (auto simp: tolerated_def split: sum.splits)
    from p obtain st2 where
      p2: "put_bundle env b (Some (repo_id r)) False ''installed'' True False st1
             = Raise NotABundle st2"
      by (auto simp: raised_def split: result.splits)
    then show ?thesis
      using Return Some i v
      by (simp add: fetch_and_put_def log_error_def tolerated_log_def)
  qed
qed

lemma sync_keys_raise_head:
  assumes "raised (sync_key env r all_keys use_only vids ck st) = Some e"
  shows "raised (sync_keys env r all_keys use_only vids (ck # cks) st) = Some e"
  using assms by (auto simp: raised_def split: result.splits)

text \<open>
  C2, as the code has it. In a pass of \<^verbatim>\<open>sync_remotes\<close> over a remote's keys, three
  failures of one artifact are caught and logged and the loop goes on with the next key:
  a fetch that raises \<^verbatim>\<open>S3ResponseError\<close>, a fetch that yields no bundle, and a call of
  \<^verbatim>\<open>put_bundle\<close> that raises \<^verbatim>\<open>NotABundle\<close>. Every other exception ends the pass: any
  other exception of the fetch, any exception of reading the fetched bundle's identity
  (which happens outside the handlers, so even \<^verbatim>\<open>NotABundle\<close> there), and any other
  exception of \<^verbatim>\<open>put_bundle\<close>. So when \<^verbatim>\<open>put_bundle\<close> raises \<^verbatim>\<open>NotABundle\<close> for one
  artifact of a batch, the loop still reaches the other artifacts of the batch: of
  a-1.0.1.db, bad-1.0.1.db and b-1.0.1.db, with \<^verbatim>\<open>put_bundle\<close> raising \<^verbatim>\<open>NotABundle\<close> for
  bad-1.0.1.db, the first and the last are installed into the catalog.
\<close>

theorem sync_keys_failure_isolated:
  assumes "ck \<notin> set all_keys" and "\<not> and_not_in use_only ck"
  shows "(tolerated env r vids ck (announce r ck st) \<longrightarrow>
            (\<exists>st'. sync_keys env r all_keys use_only vids (ck # cks) st
                     = sync_keys env r all_keys use_only vids cks st'
                   \<and> last (logged st') \<in> set (tolerated_log ck)))
       \<and> (\<forall>e. raised (get_bundle_by_cache_key env ck (announce r ck st)) = Some e
                \<longrightarrow> e \<noteq> S3ResponseError
                \<longrightarrow> raised (sync_keys env r all_keys use_only vids (ck # cks) st) = Some e)
       \<and> (\<forall>b st1 e.
              get_bundle_by_cache_key env ck (announce r ck st) = Return (Some b) st1
                \<longrightarrow> b_identity b = Inl e
                \<longrightarrow> raised (sync_keys env r all_keys use_only vids (ck # cks) st) = Some e)
       \<and> (\<forall>b st1 ident e.
              get_bundle_by_cache_key env ck (announce r ck st) = Return (Some b) st1
                \<longrightarrow> b_identity b = Inr ident
                \<longrightarrow> \<not> and_not_in vids (vid ident)
                \<longrightarrow> raised (put_bundle env b (Some (repo_id r)) False ''installed'' True False st1)
                      = Some e
                \<longrightarrow> e \<noteq> NotABundle
                \<longrightarrow> raised (sync_keys env r all_keys use_only vids (ck # cks) st) = Some e)
       \<and> datasets (state_of (sync_remotes example_env
              (Some [(''r'', example_remote [''a-1.0.1.db'', ''bad-1.0.1.db'', ''b-1.0.1.db''])])
              False True None empty_library))
            = [''vid:a-1.0.1.db'', ''vid:b-1.0.1.db'']"
proof (intro conjI impI allI)
  assume t: "tolerated env r vids ck (announce r ck st)"
  from fetch_and_put_tolerated[OF t] obtain st' where
    f: "fetch_and_put env r vids ck (announce r ck st) = Return () st'"
    and l: "last (logged st') \<in> set (tolerated_log ck)"
    by blast
  have "sync_keys env r all_keys use_only vids (ck # cks) st
          = sync_keys env r all_keys use_only vids cks st'"
    using assms f by (simp add: sync_key_def)
  then show "\<exists>st'. sync_keys env r all_keys use_only vids (ck # cks) st
                     = sync_keys env r all_keys use_only vids cks st'
                   \<and> last (logged st') \<in> set (tolerated_log ck)"
    using l by auto
next
  fix e
  assume "raised (get_bundle_by_cache_key env ck (announce r ck st)) = Some e"
    and "e \<noteq> S3ResponseError"
  then have "raised (sync_key env r all_keys use_only vids ck st) = Some e"
    using assms
    by (auto simp: sync_key_def fetch_and_put_def raised_def split: result.splits)
  then show "raised (sync_keys env r all_keys use_only vids (ck # cks) st) = Some e"
    by (rule sync_keys_raise_head)
next
  fix b st1 e
  assume "get_bundle_by_cache_key env ck (announce r ck st) = Return (Some b) st1"
    and "b_identity b = Inl e"
  then have "raised (sync_key env r all_keys use_only vids ck st) = Some e"
    using assms by (simp add: sync_key_def fetch_and_put_def raised_def)
  then show "raised (sync_keys env r all_keys use_only vids (ck # cks) st) = Some e"
    by (rule sync_keys_raise_head)
next
  fix b st1 ident e
  assume "get_bundle_by_cache_key env ck (announce r ck st) = Return (Some b) st1"
    and "b_identity b = Inr ident" and "\<not> and_not_in vids (vid ident)"
    and "raised (put_bundle env b (Some (repo_id r)) False ''installed'' True False st1) = Some e"
    and "e \<noteq> NotABundle"
  then have "raised (sync_key env r all_keys use_only vids ck st) = Some e"
    using assms
    by (auto simp: sync_key_def fetch_and_put_def raised_def split: result.splits)
  then show "raised (sync_keys env r all_keys use_only vids (ck # cks) st) = Some e"
    by (rule sync_keys_raise_head)
next
  show "datasets (state_of (sync_remotes example_env
              (Some [(''r'', example_remote [''a-1.0.1.db'', ''bad-1.0.1.db'', ''b-1.0.1.db''])])
              False True None empty_library))
            = [''vid:a-1.0.1.db'', ''vid:b-1.0.1.db'']"
    by code_simp
qed

theorem sync_keys_failure_isolated_witness:
  "''bad-1.0.1.db'' \<notin> set []
   \<and> \<not> and_not_in None ''bad-1.0.1.db''
   \<and> tolerated example_env (example_remote []) None ''bad-1.0.1.db''
         (announce (example_remote []) ''bad-1.0.1.db'' empty_library)
   \<and> (\<exists>st'. sync_keys example_env (example_remote []) [] None None
                  [''bad-1.0.1.db'', ''b-1.0.1.db''] empty_library
                = sync_keys example_env (example_remote []) [] None None [''b-1.0.1.db''] st'
              \<and> last (logged st') \<in> set (tolerated_log ''bad-1.0.1.db''))
   \<and> raised (get_bundle_by_cache_key example_env ''corrupt-1.0.1.db''
                (announce (example_remote []) ''corrupt-1.0.1.db'' empty_library))
       = Some SqliteDatabaseError
   \<and> raised (sync_keys example_env (example_remote []) [] None None
                [''corrupt-1.0.1.db'', ''b-1.0.1.db''] empty_library)
       = Some SqliteDatabaseError
   \<and> get_bundle_by_cache_key example_env ''noident-1.0.1.db''
         (announce (example_remote []) ''noident-1.0.1.db'' empty_library)
       = Return (Some \<lparr>b_identity = Inl NotABundle, b_path = ''/cache/noident-1.0.1.db'',
                        partitions = []\<rparr>)
           (cache_put ''noident-1.0.1.db''
              (announce (example_remote []) ''noident-1.0.1.db'' empty_library))
   \<and> raised (sync_keys example_env (example_remote []) [] None None
                [''noident-1.0.1.db'', ''b-1.0.1.db''] empty_library)
       = Some NotABundle"
proof -
  have h1: "''bad-1.0.1.db'' \<notin> set []" by simp
  have h2: "\<not> and_not_in None ''bad-1.0.1.db''" by (simp add: and_not_in_def)
  have h3: "tolerated example_env (example_remote []) None ''bad-1.0.1.db''
              (announce (example_remote []) ''bad-1.0.1.db'' empty_library)"
    by code_simp
  have g1: "''corrupt-1.0.1.db'' \<notin> set []" by simp
  have g2: "\<not> and_not_in None ''corrupt-1.0.1.db''" by (simp add: and_not_in_def)
  have g3: "raised (get_bundle_by_cache_key example_env ''corrupt-1.0.1.db''
                (announce (example_remote []) ''corrupt-1.0.1.db'' empty_library))
              = Some SqliteDatabaseError"
    by code_simp
  have g4: "SqliteDatabaseError \<noteq> S3ResponseError" by simp
  have n1: "''noident-1.0.1.db'' \<notin> set []" by simp
  have n2: "\<not> and_not_in None ''noident-1.0.1.db''" by (simp add: and_not_in_def)
  have n3: "get_bundle_by_cache_key example_env ''noident-1.0.1.db''
         (announce (example_remote []) ''noident-1.0.1.db'' empty_library)
       = Return (Some \<lparr>b_identity = Inl NotABundle, b_path = ''/cache/noident-1.0.1.db'',
                        partitions = []\<rparr>)
           (cache_put ''noident-1.0.1.db''
              (announce (example_remote []) ''noident-1.0.1.db'' empty_library))"
    by code_simp
  have n4: "b_identity \<lparr>b_identity = Inl NotABundle, b_path = ''/cache/noident-1.0.1.db'',
                        partitions = []\<rparr> = Inl NotABundle" by simp
  have a: "\<exists>st'. sync_keys example_env (example_remote []) [] None None
                  [''bad-1.0.1.db'', ''b-1.0.1.db''] empty_library
                = sync_keys example_env (example_remote []) [] None None [''b-1.0.1.db''] st'
              \<and> last (logged st') \<in> set (tolerated_log ''bad-1.0.1.db'')"
    using sync_keys_failure_isolated[OF h1 h2, of example_env "example_remote []" None
            empty_library "[''b-1.0.1.db'']"] h3 by blast
  have b: "raised (sync_keys example_env (example_remote []) [] None None
                [''corrupt-1.0.1.db'', ''b-1.0.1.db''] empty_library)
       = Some SqliteDatabaseError"
    using sync_keys_failure_isolated[OF g1 g2, of example_env "example_remote []" None
            empty_library "[''b-1.0.1.db'']"] g3 g4 by blast
  have c: "raised (sync_keys example_env (example_remote []) [] None None
                [''noident-1.0.1.db'', ''b-1.0.1.db''] empty_library)
       = Some NotABundle"
    using sync_keys_failure_isolated[OF n1 n2, of example_env "example_remote []" None
            empty_library "[''b-1.0.1.db'']"] n3 n4 by blast
  show ?thesis using h1 h2 h3 g3 n3 a b c by blast
qed

text \<open>
  C2 as stated fails on a fetched file that is not a database: opening it raises
  \<^verbatim>\<open>SqliteDatabaseError\<close>, which \<^verbatim>\<open>_get_bundle_by_cache_key\<close> logs and raises again
  and \<^verbatim>\<open>sync_remotes\<close> does not catch. Of a-1.0.1.db, corrupt-1.0.1.db and b-1.0.1.db,
  the pass ends with the exception at the second key and b-1.0.1.db is never installed.
\<close>

theorem sync_remotes_failure_aborts_counterexample:
  "raised (sync_remotes example_env
      (Some [(''r'', example_remote [''a-1.0.1.db'', ''corrupt-1.0.1.db'', ''b-1.0.1.db''])])
      False True None empty_library) = Some SqliteDatabaseError
   \<and> datasets (state_of (sync_remotes example_env
      (Some [(''r'', example_remote [''a-1.0.1.db'', ''corrupt-1.0.1.db'', ''b-1.0.1.db''])])
      False True None empty_library)) = [''vid:a-1.0.1.db'']"
  by code_simp

text \<open>
  An install that fails with another exception than \<^verbatim>\<open>NotABundle\<close> ends the pass as
  well: dup-1.0.1.db raises \<^verbatim>\<open>ConflictError\<close> from \<^verbatim>\<open>database.install_bundle\<close>. So does
  \<^verbatim>\<open>NotABundle\<close> when it comes from reading the identity of the fetched bundle.
\<close>

lemma sync_remotes_conflict_example:
  "raised (sync_remotes example_env
      (Some [(''r'', example_remote [''a-1.0.1.db'', ''dup-1.0.1.db'', ''b-1.0.1.db''])])
      False True None empty_library) = Some ConflictError
   \<and> FailedPut ''dup-1.0.1.db'' \<in> set (logged (state_of (sync_remotes example_env
      (Some [(''r'', example_remote [''a-1.0.1.db'', ''dup-1.0.1.db'', ''b-1.0.1.db''])])
      False True None empty_library)))"
  by code_simp

lemma sync_remotes_identity_example:
  "raised (sync_remotes example_env
      (Some [(''r'', example_remote [''a-1.0.1.db'', ''noident-1.0.1.db'', ''b-1.0.1.db''])])
      False True None empty_library) = Some NotABundle
   \<and> datasets (state_of (sync_remotes example_env
      (Some [(''r'', example_remote [''a-1.0.1.db'', ''noident-1.0.1.db'', ''b-1.0.1.db''])])
      False True None empty_library)) = [''vid:a-1.0.1.db'']"
  by code_simp

section \<open>Keys without a version in \<^verbatim>\<open>sync_remotes\<close>\<close>

text \<open>
  C4 at the listing a-1.0.5.db, junk.db, with \<^verbatim>\<open>last_only\<close>: junk.db has no version,
  the failure is logged, and the comparison then reads the 5 of the key before it; junk.db
  is kept as the latest of its group, fetched and installed. With junk.db listed first,
  \<^verbatim>\<open>version\<close> is not bound yet and the call ends with \<^verbatim>\<open>UnboundLocalError\<close>.
\<close>

theorem sync_remotes_unparseable_key:
  "search_revision ''junk.db'' = None
   \<and> FailedVersion ''junk.db''
       \<in> set (logged (state_of (sync_remotes example_env
               (Some [(''r'', example_remote [''a-1.0.5.db'', ''junk.db''])])
               False True None empty_library)))
   \<and> datasets (state_of (sync_remotes example_env
               (Some [(''r'', example_remote [''a-1.0.5.db'', ''junk.db''])])
               False True None empty_library))
       = [''vid:a-1.0.5.db'', ''vid:junk.db'']
   \<and> raised (sync_remotes example_env
               (Some [(''r'', example_remote [''junk.db'', ''a-1.0.5.db''])])
               False True None empty_library) = Some UnboundLocalError"
  by code_simp

section \<open>\<^verbatim>\<open>push\<close> of one reference\<close>

text \<open>
  What a call gives back, apart from the state: the exception or the value.
\<close>

definition outcome :: "'a result \<Rightarrow> error + 'a" where
  "outcome r = (case r of Raise e st \<Rightarrow> Inl e | Return x st \<Rightarrow> Inr x)"

lemma one_member: "one rows = Inr r \<Longrightarrow> rows = [r]"
  by (auto simp: one_def split: list.splits)

text \<open>
  C3. A reference that resolves, whose identity has exactly one row in state \<^verbatim>\<open>'new'\<close>
  among the installed rows (the \<^verbatim>\<open>one\<close> of the query), and whose cache key the upstream
  already has: \<^verbatim>\<open>push\<close> with \<^verbatim>\<open>dry_run=False\<close> returns \<^verbatim>\<open>'has'\<close> and leaves the
  upstream as it was, so \<^verbatim>\<open>upstream.put\<close> is not called and nothing is transferred; the
  row's state becomes \<^verbatim>\<open>'pushed'\<close>, and the change is committed.
\<close>

theorem push_has_short_circuit:
  assumes "resolve_ref_one env st rf None = Inr (Some dsid)"
    and "ident = (case partition dsid of Some p \<Rightarrow> p | None \<Rightarrow> identity.truncate dsid)"
    and "one (q_state ''new'' (q_ref (vid ident) (q_installed env (files st)))) = Inr file"
    and "upstream_has u (cache_key ident)"
  shows "\<exists>v st'. push env (Some u) (Some rf) cb False st = (Return (Some v) st', Some u)
           \<and> what v = ''has''
           \<and> state file = ''new''
           \<and> file \<in> set (files st)
           \<and> files st' = map (\<lambda>f. if f = file then f\<lparr>state := ''pushed''\<rparr> else f) (files st)
           \<and> file\<lparr>state := ''pushed''\<rparr> \<in> set (files st')
           \<and> commits st' = Suc (commits st)"
proof -
  from one_member[OF assms(3)] have q: "q_state ''new'' (q_ref (vid ident) (q_installed env (files st))) = [file]" .
  then have "file \<in> set (q_state ''new'' (q_ref (vid ident) (q_installed env (files st))))" by simp
  then have m: "file \<in> set (files st)" and n: "state file = ''new''"
    by (auto simp: q_state_def q_ref_def q_installed_def)
  let ?st' = "commit (set_pushed file (call_back cb (CbHas (vid ident)) st))"
  have run: "push env (Some u) (Some rf) cb False st
               = (Return (Some \<lparr>what = ''has'', timed = False,
                               md_size = to_meta_size env ident (path file)\<rparr>) ?st', Some u)"
    using assms by (simp add: push_def push_ref_def Let_def)
  have f: "files ?st' = map (\<lambda>f. if f = file then f\<lparr>state := ''pushed''\<rparr> else f) (files st)"
    by (simp add: commit_def set_pushed_def call_back_def)
  have i: "file\<lparr>state := ''pushed''\<rparr> \<in> set (files ?st')"
    unfolding f using m by force
  have c: "commits ?st' = Suc (commits st)"
    by (simp add: commit_def set_pushed_def call_back_def)
  show ?thesis using run f i c m n by auto
qed

theorem push_has_short_circuit_witness:
  "resolve_ref_one example_env pushing_library ''vid:a-1.0.1.db'' None
       = Inr (Some (identity.extend (example_identity ''a-1.0.1.db'')
                      \<lparr>partition = None, bundle_path = None\<rparr>))
   \<and> one (q_state ''new'' (q_ref (vid (example_identity ''a-1.0.1.db''))
                             (q_installed example_env (files pushing_library))))
       = Inr \<lparr>ref = ''vid:a-1.0.1.db'', ftype = BUNDLE, source_url = ''local'',
              state = ''new'', path = ''/cache/a-1.0.1.db''\<rparr>
   \<and> upstream_has (example_remote [''a-1.0.1.db'']) (cache_key (example_identity ''a-1.0.1.db''))
   \<and> (\<exists>v st'. push example_env (Some (example_remote [''a-1.0.1.db''])) (Some ''vid:a-1.0.1.db'')
                  False False pushing_library
                = (Return (Some v) st', Some (example_remote [''a-1.0.1.db'']))
              \<and> what v = ''has''
              \<and> files st' = [\<lparr>ref = ''vid:a-1.0.1.db'', ftype = BUNDLE, source_url = ''local'',
                                state = ''pushed'', path = ''/cache/a-1.0.1.db''\<rparr>]
              \<and> commits st' = 1)"
proof -
  let ?d = "identity.extend (example_identity ''a-1.0.1.db'')
              \<lparr>partition = None, bundle_path = None\<rparr>"
  let ?row = "\<lparr>ref = ''vid:a-1.0.1.db'', ftype = BUNDLE, source_url = ''local'',
               state = ''new'', path = ''/cache/a-1.0.1.db''\<rparr>"
  have h1: "resolve_ref_one example_env pushing_library ''vid:a-1.0.1.db'' None = Inr (Some ?d)"
    by code_simp
  have h2: "example_identity ''a-1.0.1.db''
              = (case partition ?d of Some p \<Rightarrow> p | None \<Rightarrow> identity.truncate ?d)"
    by code_simp
  have h3: "one (q_state ''new'' (q_ref (vid (example_identity ''a-1.0.1.db''))
                             (q_installed example_env (files pushing_library)))) = Inr ?row"
    by code_simp
  have h4: "upstream_has (example_remote [''a-1.0.1.db''])
              (cache_key (example_identity ''a-1.0.1.db''))"
    by code_simp
  have f: "files pushing_library = [?row]" "commits pushing_library = 0"
    by (simp_all add: pushing_library_def empty_library_def)
  from push_has_short_circuit[OF h1 h2 h3 h4, of False] show ?thesis
    using h1 h3 h4 f by auto
qed

text \<open>
  C6. For every reference, \<^verbatim>\<open>push\<close> with \<^verbatim>\<open>dry_run=True\<close> leaves the upstream as
  it was (no \<^verbatim>\<open>put\<close>), leaves the rows of the ledger, the catalog and the cache as they
  were, and commits nothing; what it returns or raises, and the calls of the callback,
  are those of the call with \<^verbatim>\<open>dry_run=False\<close>. For a reference that resolves and has
  its row in state \<^verbatim>\<open>'new'\<close>, the has-check decides the report: where the upstream has
  the cache key the call returns \<^verbatim>\<open>'has'\<close> and the callback gets ``Has''; where it
  has not, the call returns \<^verbatim>\<open>'pushed'\<close> and the callback gets ``Pushing to'' and
  ``Pushed'', the action that would occur.
\<close>

theorem push_dry_run_frame:
  "snd (push env (Some u) (Some rf) cb True st) = Some u
   \<and> files (state_of (fst (push env (Some u) (Some rf) cb True st))) = files st
   \<and> commits (state_of (fst (push env (Some u) (Some rf) cb True st))) = commits st
   \<and> datasets (state_of (fst (push env (Some u) (Some rf) cb True st))) = datasets st
   \<and> cache (state_of (fst (push env (Some u) (Some rf) cb True st))) = cache st
   \<and> outcome (fst (push env (Some u) (Some rf) cb True st))
       = outcome (fst (push env (Some u) (Some rf) cb False st))
   \<and> called_back (state_of (fst (push env (Some u) (Some rf) cb True st)))
       = called_back (state_of (fst (push env (Some u) (Some rf) cb False st)))
   \<and> (\<forall>dsid ident row.
         resolve_ref_one env st rf None = Inr (Some dsid)
         \<longrightarrow> ident = (case partition dsid of Some p \<Rightarrow> p | None \<Rightarrow> identity.truncate dsid)
         \<longrightarrow> one (q_state ''new'' (q_ref (vid ident) (q_installed env (files st)))) = Inr row
         \<longrightarrow> push env (Some u) (Some rf) cb True st =
               (if upstream_has u (cache_key ident)
                then (Return (Some \<lparr>what = ''has'', timed = False,
                                     md_size = to_meta_size env ident (path row)\<rparr>)
                        (call_back cb (CbHas (vid ident)) st), Some u)
                else (Return (Some \<lparr>what = ''pushed'', timed = True,
                                     md_size = to_meta_size env ident (path row)\<rparr>)
                        (call_back cb (CbPushed (vid ident))
                           (call_back cb (CbPushingTo (repo_id u) (vid ident)) st)), Some u)))"
proof (intro conjI allI impI)
  fix dsid ident row
  assume "resolve_ref_one env st rf None = Inr (Some dsid)"
    and "ident = (case partition dsid of Some p \<Rightarrow> p | None \<Rightarrow> identity.truncate dsid)"
    and "one (q_state ''new'' (q_ref (vid ident) (q_installed env (files st)))) = Inr row"
  then show "push env (Some u) (Some rf) cb True st =
               (if upstream_has u (cache_key ident)
                then (Return (Some \<lparr>what = ''has'', timed = False,
                                     md_size = to_meta_size env ident (path row)\<rparr>)
                        (call_back cb (CbHas (vid ident)) st), Some u)
                else (Return (Some \<lparr>what = ''pushed'', timed = True,
                                     md_size = to_meta_size env ident (path row)\<rparr>)
                        (call_back cb (CbPushed (vid ident))
                           (call_back cb (CbPushingTo (repo_id u) (vid ident)) st)), Some u))"
    by (simp add: push_def push_ref_def Let_def)
qed (auto simp: push_def push_ref_def Let_def state_of_def outcome_def call_back_def
                log_error_def commit_def set_pushed_def
          split: sum.splits option.splits)

theorem push_dry_run_frame_witness:
  "resolve_ref_one example_env pushing_library ''vid:a-1.0.1.db'' None
       = Inr (Some (identity.extend (example_identity ''a-1.0.1.db'')
                      \<lparr>partition = None, bundle_path = None\<rparr>))
   \<and> one (q_state ''new'' (q_ref (vid (example_identity ''a-1.0.1.db''))
                             (q_installed example_env (files pushing_library))))
       = Inr \<lparr>ref = ''vid:a-1.0.1.db'', ftype = BUNDLE, source_url = ''local'',
              state = ''new'', path = ''/cache/a-1.0.1.db''\<rparr>
   \<and> upstream_has (example_remote [''a-1.0.1.db'']) (cache_key (example_identity ''a-1.0.1.db''))
   \<and> \<not> upstream_has (example_remote []) (cache_key (example_identity ''a-1.0.1.db''))
   \<and> push example_env (Some (example_remote [''a-1.0.1.db''])) (Some ''vid:a-1.0.1.db'')
        True True pushing_library
       = (Return (Some \<lparr>what = ''has'', timed = False, md_size = None\<rparr>)
            (pushing_library\<lparr>called_back := [CbHas ''vid:a-1.0.1.db'']\<rparr>),
          Some (example_remote [''a-1.0.1.db'']))
   \<and> push example_env (Some (example_remote [])) (Some ''vid:a-1.0.1.db'')
        True True pushing_library
       = (Return (Some \<lparr>what = ''pushed'', timed = True, md_size = None\<rparr>)
            (pushing_library\<lparr>called_back := [CbPushingTo ''s3://remote'' ''vid:a-1.0.1.db'',
                                             CbPushed ''vid:a-1.0.1.db'']\<rparr>),
          Some (example_remote []))"
proof -
  let ?d = "identity.extend (example_identity ''a-1.0.1.db'')
              \<lparr>partition = None, bundle_path = None\<rparr>"
  let ?row = "\<lparr>ref = ''vid:a-1.0.1.db'', ftype = BUNDLE, source_url = ''local'',
               state = ''new'', path = ''/cache/a-1.0.1.db''\<rparr>"
  have h1: "resolve_ref_one example_env pushing_library ''vid:a-1.0.1.db'' None = Inr (Some ?d)"
    by code_simp
  have h2: "example_identity ''a-1.0.1.db''
              = (case partition ?d of Some p \<Rightarrow> p | None \<Rightarrow> identity.truncate ?d)"
    by code_simp
  have h3: "one (q_state ''new'' (q_ref (vid (example_identity ''a-1.0.1.db''))
                             (q_installed example_env (files pushing_library)))) = Inr ?row"
    by code_simp
  have h4: "upstream_has (example_remote [''a-1.0.1.db''])
              (cache_key (example_identity ''a-1.0.1.db''))"
    by code_simp
  have h5: "\<not> upstream_has (example_remote []) (cache_key (example_identity ''a-1.0.1.db''))"
    by code_simp
  have m: "to_meta_size example_env (example_identity ''a-1.0.1.db'') (path ?row) = None"
    by (simp add: example_env_def)
  have c1: "call_back True (CbHas (vid (example_identity ''a-1.0.1.db''))) pushing_library
              = pushing_library\<lparr>called_back := [CbHas ''vid:a-1.0.1.db'']\<rparr>"
    by (simp add: call_back_def pushing_library_def empty_library_def example_identity_def)
  have c2: "call_back True (CbPushed (vid (example_identity ''a-1.0.1.db'')))
              (call_back True (CbPushingTo (repo_id (example_remote []))
                                 (vid (example_identity ''a-1.0.1.db''))) pushing_library)
              = pushing_library\<lparr>called_back := [CbPushingTo ''s3://remote'' ''vid:a-1.0.1.db'',
                                               CbPushed ''vid:a-1.0.1.db'']\<rparr>"
    by (simp add: call_back_def pushing_library_def empty_library_def example_identity_def
                  example_remote_def)
  have a: "push example_env (Some (example_remote [''a-1.0.1.db''])) (Some ''vid:a-1.0.1.db'')
        True True pushing_library
       = (Return (Some \<lparr>what = ''has'', timed = False, md_size = None\<rparr>)
            (pushing_library\<lparr>called_back := [CbHas ''vid:a-1.0.1.db'']\<rparr>),
          Some (example_remote [''a-1.0.1.db'']))"
    using push_dry_run_frame[of example_env "example_remote [''a-1.0.1.db'']" "''vid:a-1.0.1.db''"
            True pushing_library] h1 h2 h3 h4 m c1
    by simp
  have b: "push example_env (Some (example_remote [])) (Some ''vid:a-1.0.1.db'')
        True True pushing_library
       = (Return (Some \<lparr>what = ''pushed'', timed = True, md_size = None\<rparr>)
            (pushing_library\<lparr>called_back := [CbPushingTo ''s3://remote'' ''vid:a-1.0.1.db'',
                                             CbPushed ''vid:a-1.0.1.db'']\<rparr>),
          Some (example_remote []))"
    using push_dry_run_frame[of example_env "example_remote []" "''vid:a-1.0.1.db''"
            True pushing_library] h1 h2 h3 h5 m c2
    by simp
  show ?thesis using h1 h3 h4 h5 a b by blast
qed

section \<open>\<^verbatim>\<open>put_bundle\<close> on a bundle that is installed\<close>

text \<open>
  C7. Without \<^verbatim>\<open>force\<close>, for a bundle whose vid has a row of type \<^verbatim>\<open>BUNDLE\<close> in the
  ledger (the query's \<^verbatim>\<open>one_maybe\<close> gives the row), \<^verbatim>\<open>put_bundle\<close> returns at once the
  path of the cache key and \<^verbatim>\<open>False\<close>, and the library is what it was: the catalog,
  the ledger, the local cache and the search index are untouched.
\<close>

theorem put_bundle_idempotent:
  assumes "\<not> force" and "b_identity b = Inr ident"
    and "one_maybe (q_type [BUNDLE] (q_ref (vid ident) (files st))) = Inr (Some row)"
  shows "put_bundle env b source install_partitions file_state commit_flag force st
           = Return (cache_path env (cache_key ident), False) st"
  using assms by (simp add: put_bundle_def then_do_def already_installed_def)

theorem put_bundle_idempotent_witness:
  "\<not> False
   \<and> b_identity \<lparr>b_identity = Inr (example_identity ''a-1.0.1.db''),
                  b_path = ''/cache/a-1.0.1.db'', partitions = []\<rparr>
       = Inr (example_identity ''a-1.0.1.db'')
   \<and> one_maybe (q_type [BUNDLE] (q_ref (vid (example_identity ''a-1.0.1.db''))
                                   (files pushing_library)))
       = Inr (Some \<lparr>ref = ''vid:a-1.0.1.db'', ftype = BUNDLE, source_url = ''local'',
                    state = ''new'', path = ''/cache/a-1.0.1.db''\<rparr>)
   \<and> put_bundle example_env
        \<lparr>b_identity = Inr (example_identity ''a-1.0.1.db''),
         b_path = ''/cache/a-1.0.1.db'', partitions = []\<rparr>
        None True ''installed'' True False pushing_library
       = Return (''/cache/a-1.0.1.db'', False) pushing_library"
proof -
  let ?b = "\<lparr>b_identity = Inr (example_identity ''a-1.0.1.db''),
             b_path = ''/cache/a-1.0.1.db'', partitions = []\<rparr>"
  have h1: "\<not> False" by simp
  have h2: "b_identity ?b = Inr (example_identity ''a-1.0.1.db'')" by simp
  have h3: "one_maybe (q_type [BUNDLE] (q_ref (vid (example_identity ''a-1.0.1.db''))
                                   (files pushing_library)))
       = Inr (Some \<lparr>ref = ''vid:a-1.0.1.db'', ftype = BUNDLE, source_url = ''local'',
                    state = ''new'', path = ''/cache/a-1.0.1.db''\<rparr>)"
    by code_simp
  have p: "cache_path example_env (cache_key (example_identity ''a-1.0.1.db''))
             = ''/cache/a-1.0.1.db''"
    by code_simp
  from put_bundle_idempotent[OF h1 h2 h3, of example_env None True "''installed''" True]
  show ?thesis using h2 h3 p by simp
qed

section \<open>The walk of \<^verbatim>\<open>sync_library\<close>\<close>

text \<open>
  A bundle that the walk may collect: some file ending in \<^verbatim>\<open>.db\<close> opens as it, its
  identity can be read, and the identity is that of a bundle.
\<close>

definition opens_as_bundle :: "env \<Rightarrow> db_bundle \<Rightarrow> bool" where
  "opens_as_bundle env b =
     (\<exists>p i. endswith p ''.db'' \<and> create_bundle env p = Inr b \<and> b_identity b = Inr i \<and> is_bundle i)"

lemma endswith_iff: "endswith s suf \<longleftrightarrow> (\<exists>p. s = p @ suf)"
proof
  assume "endswith s suf"
  then have "s = take (length s - length suf) s @ suf"
    by (metis append_take_drop_id endswith_def)
  then show "\<exists>p. s = p @ suf" ..
next
  assume "\<exists>p. s = p @ suf"
  then show "endswith s suf" by (auto simp: endswith_def)
qed

lemma endswith_path_join: "endswith file suf \<Longrightarrow> endswith (path_join r file) suf"
  unfolding endswith_iff path_join_def by (auto simp del: append_assoc simp: append_assoc[symmetric])

lemma walk_file_found:
  assumes "walk_file env r file bundles st = Return found st'"
  shows "found = bundles \<or> (\<exists>b. found = bundles @ [b] \<and> opens_as_bundle env b)"
proof (cases "endswith file ''.db''")
  case False
  then show ?thesis using assms by (simp add: walk_file_def)
next
  case True
  then have e: "endswith (path_join r file) ''.db''" by (rule endswith_path_join)
  show ?thesis
    using assms True e
    by (auto simp: walk_file_def Let_def opens_as_bundle_def split: sum.splits if_splits)
qed

lemma walk_files_found:
  assumes "walk_files env r fs bundles st = Return found st'"
  shows "\<forall>x\<in>set found. x \<in> set bundles \<or> opens_as_bundle env x"
  using assms
proof (induction fs arbitrary: bundles st)
  case Nil
  then show ?case by simp
next
  case (Cons fl fs)
  from Cons.prems obtain b1 s1 where
    w: "walk_file env r fl bundles st = Return b1 s1"
    and rest: "walk_files env r fs b1 s1 = Return found st'"
    by (auto split: result.splits)
  from Cons.IH[OF rest] have ih: "\<forall>x\<in>set found. x \<in> set b1 \<or> opens_as_bundle env x" .
  from walk_file_found[OF w] show ?case using ih by auto
qed

lemma walk_found:
  "walk env r t bundles st = Return found st'
     \<Longrightarrow> \<forall>x\<in>set found. x \<in> set bundles \<or> opens_as_bundle env x"
  "walk_dirs env r f ds bundles st = Return found st'
     \<Longrightarrow> \<forall>x\<in>set found. x \<in> set bundles \<or> opens_as_bundle env x"
proof (induction env r t bundles st and env r f ds bundles st arbitrary: found st' and found st'
       rule: walk_walk_dirs.induct)
  case (1 env r f d bundles st)
  show ?case
  proof (cases "contains r ''/meta/''")
    case True
    then have "walk_dirs env r f d bundles st = Return found st'" using "1.prems" by simp
    from "1.IH"[OF _ this] True show ?thesis by simp
  next
    case False
    from "1.prems" False obtain b1 s1 where
      wf: "walk_files env r f bundles st = Return b1 s1"
      and wd: "walk_dirs env r f d b1 s1 = Return found st'"
      by (auto split: result.splits)
    from "1.IH"[OF _ wd] wf False have "\<forall>x\<in>set found. x \<in> set b1 \<or> opens_as_bundle env x" by simp
    then show ?thesis using walk_files_found[OF wf] by blast
  qed
next
  case (2 env r f bundles st)
  then show ?case by simp
next
  case (3 env r f nd ds bundles st)
  show ?case
  proof (cases "fst nd @ ''.db'' \<in> set f")
    case True
    then have "walk_dirs env r f ds bundles st = Return found st'" using "3.prems" by simp
    from "3.IH"(1)[OF True this] show ?thesis .
  next
    case False
    from "3.prems" False obtain b1 s1 where
      w: "walk env (path_join r (fst nd)) (snd nd) bundles st = Return b1 s1"
      and wd: "walk_dirs env r f ds b1 s1 = Return found st'"
      by (auto split: result.splits)
    from "3.IH"(2)[OF False w] have a: "\<forall>x\<in>set b1. x \<in> set bundles \<or> opens_as_bundle env x" .
    from "3.IH"(3)[OF False w wd] have "\<forall>x\<in>set found. x \<in> set b1 \<or> opens_as_bundle env x" .
    then show ?thesis using a by blast
  qed
qed

text \<open>
  C8, as the code has it. In the walk of \<^verbatim>\<open>sync_library\<close>, a file ending in \<^verbatim>\<open>.db\<close>
  that opens but whose identity cannot be read is logged and passed over, and the walk
  goes on with the files that follow; a file whose opening raises \<^verbatim>\<open>NotFoundError\<close> is
  passed over without a log entry; any other exception of the opening is logged and
  raised again, which ends the walk. What the walk collects, and what \<^verbatim>\<open>sync_library\<close>
  returns and installs, are only bundles that opened, whose identity was read and says
  they are bundles.
\<close>

theorem sync_library_walk_open_failures:
  assumes "endswith fl ''.db''"
  shows "(\<forall>b e. create_bundle env (path_join r fl) = Inr b
            \<longrightarrow> b_identity b = Inl e
            \<longrightarrow> walk_files env r (fl # fs) bundles st
                  = walk_files env r fs bundles (log_error (FailedOpen (path_join r fl)) st))
         \<and> (create_bundle env (path_join r fl) = Inl NotFoundError
              \<longrightarrow> walk_files env r (fl # fs) bundles st = walk_files env r fs bundles st)
         \<and> (\<forall>e. create_bundle env (path_join r fl) = Inl e
              \<longrightarrow> e \<noteq> NotFoundError
              \<longrightarrow> walk_files env r (fl # fs) bundles st
                    = Raise e (log_error (FailedProcess fl (path_join r fl)) st))
         \<and> (\<forall>t r0 bundles0 st0 found st'.
               walk env r0 t bundles0 st0 = Return found st'
                 \<longrightarrow> (\<forall>x\<in>set found. x \<in> set bundles0 \<or> opens_as_bundle env x))
         \<and> (\<forall>tree clean st0 found st'.
               sync_library env tree clean st0 = Return found st'
                 \<longrightarrow> (\<forall>x\<in>set found. opens_as_bundle env x))"
proof (intro conjI allI impI)
  fix b e
  assume "create_bundle env (path_join r fl) = Inr b" and "b_identity b = Inl e"
  then show "walk_files env r (fl # fs) bundles st
           = walk_files env r fs bundles (log_error (FailedOpen (path_join r fl)) st)"
    using assms by (simp add: walk_file_def)
next
  assume "create_bundle env (path_join r fl) = Inl NotFoundError"
  then show "walk_files env r (fl # fs) bundles st = walk_files env r fs bundles st"
    using assms by (simp add: walk_file_def)
next
  fix e
  assume "create_bundle env (path_join r fl) = Inl e" and "e \<noteq> NotFoundError"
  then show "walk_files env r (fl # fs) bundles st
               = Raise e (log_error (FailedProcess fl (path_join r fl)) st)"
    using assms by (simp add: walk_file_def)
next
  fix t r0 bundles0 st0 found st'
  assume "walk env r0 t bundles0 st0 = Return found st'"
  then show "\<forall>x\<in>set found. x \<in> set bundles0 \<or> opens_as_bundle env x"
    by (rule walk_found(1))
next
  fix tree clean st0 found st'
  assume s: "sync_library env tree clean st0 = Return found st'"
  then obtain st1 fnd st2 where
    w: "walk env (cache_dir st1) tree [] st1 = Return fnd st2"
    and f: "found = sort_key (\<lambda>b. length (partitions b)) fnd"
    by (auto simp: sync_library_def Let_def split: result.splits)
  from walk_found(1)[OF w] have "\<forall>x\<in>set fnd. opens_as_bundle env x" by simp
  then show "\<forall>x\<in>set found. opens_as_bundle env x" using f by simp
qed

theorem sync_library_walk_open_failures_witness:
  "endswith ''broken.db'' ''.db''
   \<and> create_bundle example_env (path_join ''/cache'' ''broken.db'')
       = Inr \<lparr>b_identity = Inl OperationalError, b_path = ''/cache/broken.db'', partitions = []\<rparr>
   \<and> walk_files example_env ''/cache'' [''broken.db'', ''a-1.0.1.db''] [] empty_library
       = walk_files example_env ''/cache'' [''a-1.0.1.db''] []
           (log_error (FailedOpen (path_join ''/cache'' ''broken.db'')) empty_library)
   \<and> endswith ''part.db'' ''.db''
   \<and> create_bundle example_env (path_join ''/cache'' ''part.db'') = Inl NotFoundError
   \<and> walk_files example_env ''/cache'' [''part.db'', ''a-1.0.1.db''] [] empty_library
       = walk_files example_env ''/cache'' [''a-1.0.1.db''] [] empty_library
   \<and> endswith ''corrupt-1.0.1.db'' ''.db''
   \<and> create_bundle example_env (path_join ''/cache'' ''corrupt-1.0.1.db'')
       = Inl SqliteDatabaseError
   \<and> walk_files example_env ''/cache'' [''corrupt-1.0.1.db'', ''a-1.0.1.db''] [] empty_library
       = Raise SqliteDatabaseError
           (log_error (FailedProcess ''corrupt-1.0.1.db''
                         (path_join ''/cache'' ''corrupt-1.0.1.db'')) empty_library)
   \<and> map b_path (case sync_library example_env
                       (Dir [''broken.db'', ''part.db'', ''a-1.0.1.db''] []) False
                       empty_library of Raise e s \<Rightarrow> [] | Return found s \<Rightarrow> found)
       = [''/cache/a-1.0.1.db'']"
proof -
  have h1: "endswith ''broken.db'' ''.db''" by code_simp
  have h2: "create_bundle example_env (path_join ''/cache'' ''broken.db'')
       = Inr \<lparr>b_identity = Inl OperationalError, b_path = ''/cache/broken.db'', partitions = []\<rparr>"
    by code_simp
  have h3: "b_identity \<lparr>b_identity = Inl OperationalError, b_path = ''/cache/broken.db'',
                  partitions = []\<rparr> = Inl OperationalError" by simp
  have p1: "endswith ''part.db'' ''.db''" by code_simp
  have p2: "create_bundle example_env (path_join ''/cache'' ''part.db'') = Inl NotFoundError"
    by code_simp
  have c1: "endswith ''corrupt-1.0.1.db'' ''.db''" by code_simp
  have c2: "create_bundle example_env (path_join ''/cache'' ''corrupt-1.0.1.db'')
              = Inl SqliteDatabaseError"
    by code_simp
  have c3: "SqliteDatabaseError \<noteq> NotFoundError" by simp
  have e: "map b_path (case sync_library example_env
                       (Dir [''broken.db'', ''part.db'', ''a-1.0.1.db''] []) False
                       empty_library of Raise e s \<Rightarrow> [] | Return found s \<Rightarrow> found)
       = [''/cache/a-1.0.1.db'']"
    by code_simp
  have a: "walk_files example_env ''/cache'' [''broken.db'', ''a-1.0.1.db''] [] empty_library
       = walk_files example_env ''/cache'' [''a-1.0.1.db''] []
           (log_error (FailedOpen (path_join ''/cache'' ''broken.db'')) empty_library)"
    using sync_library_walk_open_failures[OF h1, of example_env "''/cache''" "[''a-1.0.1.db'']"
            "[]" empty_library] h2 h3 by blast
  have b: "walk_files example_env ''/cache'' [''part.db'', ''a-1.0.1.db''] [] empty_library
       = walk_files example_env ''/cache'' [''a-1.0.1.db''] [] empty_library"
    using sync_library_walk_open_failures[OF p1, of example_env "''/cache''" "[''a-1.0.1.db'']"
            "[]" empty_library] p2 by blast
  have c: "walk_files example_env ''/cache'' [''corrupt-1.0.1.db'', ''a-1.0.1.db''] []
             empty_library
       = Raise SqliteDatabaseError
           (log_error (FailedProcess ''corrupt-1.0.1.db''
                         (path_join ''/cache'' ''corrupt-1.0.1.db'')) empty_library)"
    using sync_library_walk_open_failures[OF c1, of example_env "''/cache''" "[''a-1.0.1.db'']"
            "[]" empty_library] c2 c3 by blast
  show ?thesis using h1 h2 p1 p2 c1 c2 a b c e by blast
qed

text \<open>
  C8 as stated fails on a file whose opening raises: with corrupt-1.0.1.db and
  a-1.0.1.db in the cache directory, opening the first raises \<^verbatim>\<open>SqliteDatabaseError\<close>,
  which is logged and raised again; \<^verbatim>\<open>sync_library\<close> ends there and a-1.0.1.db is not
  installed.
\<close>

theorem sync_library_open_failure_aborts_counterexample:
  "raised (sync_library example_env (Dir [''corrupt-1.0.1.db'', ''a-1.0.1.db''] []) False
             empty_library) = Some SqliteDatabaseError
   \<and> datasets (state_of (sync_library example_env
                  (Dir [''corrupt-1.0.1.db'', ''a-1.0.1.db''] []) False empty_library)) = []
   \<and> logged (state_of (sync_library example_env
                  (Dir [''corrupt-1.0.1.db'', ''a-1.0.1.db''] []) False empty_library))
       = [RebuildingFrom ''/cache'',
          FailedProcess ''corrupt-1.0.1.db'' ''/cache/corrupt-1.0.1.db'']"
  by code_simp

text \<open>
  A file whose opening raises \<^verbatim>\<open>NotFoundError\<close> leaves no log entry.
\<close>

lemma sync_library_not_found_example:
  "logged (state_of (sync_library example_env (Dir [''part.db''] []) False empty_library))
     = [RebuildingFrom ''/cache'']"
  by code_simp

section \<open>\<^verbatim>\<open>has\<close> on a reference that does not resolve\<close>

definition ref_string :: "ref_arg \<Rightarrow> string" where
  "ref_string rf = (case rf of RefStr s \<Rightarrow> s | RefIdentity i \<Rightarrow> vid i)"

definition locations :: "file_type list option \<Rightarrow> file_type list" where
  "locations location = (case location of None \<Rightarrow> [BUNDLE, PARTITION, REMOTE] | Some l \<Rightarrow> l)"

text \<open>
  C9. When the resolver finds no identity for a reference (it returns none, or raises
  \<^verbatim>\<open>NotObjectNumberError\<close>), \<^verbatim>\<open>resolve\<close> returns \<^verbatim>\<open>None\<close> and \<^verbatim>\<open>has\<close> raises
  \<^verbatim>\<open>AttributeError\<close>; it does not return \<^verbatim>\<open>False\<close>.
\<close>

theorem has_unresolved_raises:
  assumes "resolve_ref_one env st (ref_string rf) (Some (locations location)) = Inr None
           \<or> resolve_ref_one env st (ref_string rf) (Some (locations location))
               = Inl NotObjectNumberError"
  shows "resolve env rf location st = Return None st
         \<and> has env rf location st = Raise AttributeError st
         \<and> outcome (has env rf location st) \<noteq> Inr False"
  using assms
  by (auto simp: has_def resolve_def Let_def ref_string_def locations_def outcome_def)

theorem has_unresolved_raises_witness:
  "resolve_ref_one example_env empty_library (ref_string (RefStr ''nothing''))
       (Some (locations None)) = Inr None
   \<and> has example_env (RefStr ''nothing'') None empty_library
       = Raise AttributeError empty_library"
proof -
  have h: "resolve_ref_one example_env empty_library (ref_string (RefStr ''nothing''))
       (Some (locations None)) = Inr None"
    by code_simp
  then have "resolve_ref_one example_env empty_library (ref_string (RefStr ''nothing''))
       (Some (locations None)) = Inr None
     \<or> resolve_ref_one example_env empty_library (ref_string (RefStr ''nothing''))
       (Some (locations None)) = Inl NotObjectNumberError" by simp
  from has_unresolved_raises[OF this] h show ?thesis by simp
qed

text \<open>
  On a reference that resolves, \<^verbatim>\<open>has\<close> returns.
\<close>

lemma has_resolved_returns:
  assumes "resolve env rf location st = Return (Some d) st'"
  shows "\<exists>b. has env rf location st = Return b st'"
  using assms by (auto simp: has_def split: option.splits)

section \<open>\<^verbatim>\<open>remove\<close>\<close>

text \<open>
  C10. \<^verbatim>\<open>remove\<close> has no argument that would keep a removal local. For every bundle
  that the database lets go, it deletes the bundle's records from the library database,
  invalidates the documentation cache for the vid, and removes the cache key with
  \<^verbatim>\<open>propagate=True\<close>: afterwards neither the local cache nor any tier upstream of it
  holds the key.
\<close>

theorem remove_propagates:
  assumes "remove_bundle_raises env b = None" and "b_identity b = Inr ident"
  shows "\<exists>st'. remove env b st = Return () st'
           \<and> vid ident \<notin> set (datasets st')
           \<and> vid ident \<notin> set (map ref (files st'))
           \<and> (Some (vid ident), None) \<in> set (marked st')
           \<and> cache_key ident \<notin> set (cache st')
           \<and> cache_key ident \<notin> \<Union> (set (map set (cache_upstreams st')))
           \<and> length (cache_upstreams st') = length (cache_upstreams st)"
  using assms
  by (auto simp: remove_def remove_bundle_def cache_remove_def mark_updated_def Let_def)

theorem remove_propagates_witness:
  "remove_bundle_raises example_env
       \<lparr>b_identity = Inr (example_identity ''a-1.0.1.db''),
        b_path = ''/cache/a-1.0.1.db'', partitions = []\<rparr> = None
   \<and> b_identity \<lparr>b_identity = Inr (example_identity ''a-1.0.1.db''),
                  b_path = ''/cache/a-1.0.1.db'', partitions = []\<rparr>
       = Inr (example_identity ''a-1.0.1.db'')
   \<and> (\<exists>st'. remove example_env
                 \<lparr>b_identity = Inr (example_identity ''a-1.0.1.db''),
                  b_path = ''/cache/a-1.0.1.db'', partitions = []\<rparr> pushing_library
               = Return () st'
             \<and> cache_key (example_identity ''a-1.0.1.db'') \<notin> set (cache st')
             \<and> cache_key (example_identity ''a-1.0.1.db'')
                 \<notin> \<Union> (set (map set (cache_upstreams st'))))
   \<and> cache_upstreams (state_of (remove example_env
                 \<lparr>b_identity = Inr (example_identity ''a-1.0.1.db''),
                  b_path = ''/cache/a-1.0.1.db'', partitions = []\<rparr> pushing_library))
       = [[''b-1.0.1.db'']]"
proof -
  let ?b = "\<lparr>b_identity = Inr (example_identity ''a-1.0.1.db''),
             b_path = ''/cache/a-1.0.1.db'', partitions = []\<rparr>"
  have h1: "remove_bundle_raises example_env ?b = None" by (simp add: example_env_def)
  have h2: "b_identity ?b = Inr (example_identity ''a-1.0.1.db'')" by simp
  have h3: "cache_upstreams (state_of (remove example_env ?b pushing_library))
              = [[''b-1.0.1.db'']]"
    by code_simp
  from remove_propagates[OF h1 h2, of pushing_library] show ?thesis
    using h1 h2 h3 by blast
qed

section \<open>What \<^verbatim>\<open>push\<close> does to the rows of the ledger\<close>

text \<open>
  Row by row, a push of one reference leaves a row as it is or takes it from \<^verbatim>\<open>'new'\<close>
  to \<^verbatim>\<open>'pushed'\<close>. The other writers of a row's state, \<^verbatim>\<open>install_bundle_file\<close> and
  \<^verbatim>\<open>install_partition_file\<close> of the files table, are parameters here.
\<close>

definition push_step :: "file_row \<Rightarrow> file_row \<Rightarrow> bool" where
  "push_step f f' = (f' = f \<or> (state f = ''new'' \<and> f' = f\<lparr>state := ''pushed''\<rparr>))"

lemma set_pushed_rows:
  assumes "state file = ''new''"
  shows "list_all2 push_step rows (map (\<lambda>f. if f = file then f\<lparr>state := ''pushed''\<rparr> else f) rows)"
  using assms by (induction rows) (auto simp: push_step_def)

lemma push_only_new_to_pushed:
  "list_all2 push_step (files st) (files (state_of (fst (push_ref env u rf cb dry_run st))))"
proof -
  have refl: "list_all2 push_step (files st) (files st)"
    by (simp add: list_all2_same push_step_def)
  show ?thesis
  proof (cases "resolve_ref_one env st rf None")
    case (Inl e)
    then show ?thesis using refl by (simp add: push_ref_def state_of_def)
  next
    case (Inr od)
    show ?thesis
    proof (cases od)
      case None
      then show ?thesis using Inr refl by (simp add: push_ref_def state_of_def)
    next
      case (Some dsid)
      let ?ident = "case partition dsid of Some p \<Rightarrow> p | None \<Rightarrow> identity.truncate dsid"
      show ?thesis
      proof (cases "one (q_state ''new'' (q_ref (vid ?ident) (q_installed env (files st))))")
        case (Inl e)
        then show ?thesis
          using Inr Some refl by (simp add: push_ref_def state_of_def log_error_def)
      next
        case (Inr fl)
        from one_member[OF Inr] have "fl \<in> set (q_state ''new'' (q_ref (vid ?ident) (q_installed env (files st))))"
          by simp
        then have n: "state fl = ''new''" by (simp add: q_state_def)
        from set_pushed_rows[OF n, of "files st"] refl
        show ?thesis
          using \<open>resolve_ref_one env st rf None = Inr od\<close> Some Inr
          by (simp add: push_ref_def state_of_def Let_def call_back_def set_pushed_def commit_def)
      qed
    qed
  qed
qed

end
